theory Spec2Isabelle
  imports Main
begin

section \<open>JavaScript values\<close>

text \<open>
  The values that reach the server are JSON values: the request body parsed by
  \<^verbatim>\<open>express.json()\<close>, the gateway's response bodies parsed by axios, and
  \<^verbatim>\<open>undefined\<close> for an absent property. A string is a list of code units; the
  model covers code units below 256. A number is modelled for the safe integers, of
  magnitude below \<open>2^53\<close> (\<open>safe_integer\<close> below): a number holds them exactly and
  \<^verbatim>\<open>String\<close> prints them as their decimal digits (what a phone number or an amount written
  without a fraction is). Fractions, larger magnitudes, NaN and the infinities are
  outside the model: \<open>JNum n\<close> stands for a number of the program only when \<open>n\<close> is a safe
  integer. An object is the list of its own properties, each key once; a property read
  takes the entry with the key.
\<close>

datatype jsval =
    JUndefined
  | JNull
  | JBool bool
  | JNum int
  | JStr string
  | JArr "jsval list"
  | JObj "(string \<times> jsval) list"

text \<open>What the handlers can catch: an axios rejection (\<^verbatim>\<open>err.response?.data\<close>, which is
  \<^verbatim>\<open>undefined\<close> when no response arrived, and \<^verbatim>\<open>err.message\<close>) or a TypeError of the
  engine (its message).\<close>

datatype jserror =
    AxiosError jsval string
  | TypeError string

fun err_response_data :: "jserror \<Rightarrow> jsval" where
  "err_response_data (AxiosError d m) = d"
| "err_response_data (TypeError m) = JUndefined"

fun err_message :: "jserror \<Rightarrow> string" where
  "err_message (AxiosError d m) = m"
| "err_message (TypeError m) = m"

text \<open>\<^verbatim>\<open>!v\<close> is true for undefined, null, false, 0 and the empty string.\<close>

fun truthy :: "jsval \<Rightarrow> bool" where
  "truthy JUndefined = False"
| "truthy JNull = False"
| "truthy (JBool b) = b"
| "truthy (JNum n) = (n \<noteq> 0)"
| "truthy (JStr s) = (s \<noteq> [])"
| "truthy (JArr xs) = True"
| "truthy (JObj kvs) = True"

text \<open>\<^verbatim>\<open>a || b\<close>\<close>

definition js_or :: "jsval \<Rightarrow> jsval \<Rightarrow> jsval" where
  "js_or a b = (if truthy a then a else b)"

text \<open>\<^verbatim>\<open>v.k\<close> for the property names the server reads (none of them is inherited from a
  prototype): a TypeError on undefined and null, the own property of an object,
  undefined on every other value.\<close>

fun get_prop :: "jsval \<Rightarrow> string \<Rightarrow> jserror + jsval" where
  "get_prop JUndefined k =
     Inl (TypeError (''Cannot read properties of undefined (reading '' @ [CHR 0x27] @ k @ [CHR 0x27] @ '')''))"
| "get_prop JNull k =
     Inl (TypeError (''Cannot read properties of null (reading '' @ [CHR 0x27] @ k @ [CHR 0x27] @ '')''))"
| "get_prop (JObj kvs) k = Inr (case map_of kvs k of None \<Rightarrow> JUndefined | Some v \<Rightarrow> v)"
| "get_prop v k = Inr JUndefined"

text \<open>\<^verbatim>\<open>v?.k\<close>\<close>

definition get_prop_opt :: "jsval \<Rightarrow> string \<Rightarrow> jsval" where
  "get_prop_opt v k = (case get_prop v k of Inl e \<Rightarrow> JUndefined | Inr x \<Rightarrow> x)"

subsection \<open>Conversion to string\<close>

definition digit_char :: "nat \<Rightarrow> char" where
  "digit_char d = ''0123456789'' ! (d mod 10)"

fun show_nat :: "nat \<Rightarrow> string" where
  "show_nat n = (if n < 10 then [digit_char n] else show_nat (n div 10) @ [digit_char (n mod 10)])"

declare show_nat.simps [simp del]

definition show_int :: "int \<Rightarrow> string" where
  "show_int i = (if i < 0 then CHR ''-'' # show_nat (nat (- i)) else show_nat (nat i))"

text \<open>The safe integers, \<^verbatim>\<open>Number.isSafeInteger\<close>: the integers of magnitude below \<open>2^53\<close>,
  which a number holds exactly and \<^verbatim>\<open>String\<close> prints digit for digit. Above the range a
  number is a rounded value and is printed with the shortest digits that read back to it
  (\<open>2^60\<close> as 1152921504606847000), and from \<open>10^21\<close> with an exponent.\<close>

definition safe_integer :: "int \<Rightarrow> bool" where
  "safe_integer n = (- (2 ^ 53) < n \<and> n < 2 ^ 53)"

text \<open>
  \<^verbatim>\<open>String(v)\<close>, also what a template literal and \<^verbatim>\<open>RegExp.test\<close> apply to a value.
  An array is joined with commas, undefined and null elements as the empty string.
  A parsed object has no callable \<^verbatim>\<open>toString\<close> of its own: it prints as
  \<^verbatim>\<open>[object Object]\<close> through the prototype, and when it has an own property named
  \<^verbatim>\<open>toString\<close> (not callable, as every JSON value) the conversion raises a TypeError,
  here \<open>None\<close>.
\<close>

fun ToString :: "jsval \<Rightarrow> string option"
and join_elems :: "jsval list \<Rightarrow> string option" where
  "ToString JUndefined = Some ''undefined''"
| "ToString JNull = Some ''null''"
| "ToString (JBool b) = Some (if b then ''true'' else ''false'')"
| "ToString (JNum n) = Some (show_int n)"
| "ToString (JStr s) = Some s"
| "ToString (JArr xs) = join_elems xs"
| "ToString (JObj kvs) =
     (if map_of kvs ''toString'' = None then Some ''[object Object]'' else None)"
| "join_elems [] = Some []"
| "join_elems (x # xs) =
     (case (if x = JUndefined \<or> x = JNull then Some [] else ToString x) of
        None \<Rightarrow> None
      | Some s \<Rightarrow>
          (if xs = [] then Some s
           else (case join_elems xs of None \<Rightarrow> None | Some r \<Rightarrow> Some (s @ '','' @ r))))"

definition no_primitive :: jserror where
  "no_primitive = TypeError ''Cannot convert object to primitive value''"

definition String_js :: "jsval \<Rightarrow> jserror + string" where
  "String_js v = (case ToString v of None \<Rightarrow> Inl no_primitive | Some s \<Rightarrow> Inr s)"

subsection \<open>String operations\<close>

text \<open>The white space of \<^verbatim>\<open>\s\<close> and of \<^verbatim>\<open>trim\<close> among the code units below 256: tab,
  line feed, vertical tab, form feed, carriage return, space, no-break space.\<close>

definition is_space :: "char \<Rightarrow> bool" where
  "is_space c = (c \<in> set [CHR 0x09, CHR 0x0A, CHR 0x0B, CHR 0x0C, CHR 0x0D, CHR 0x20, CHR 0xA0])"

definition is_digit :: "char \<Rightarrow> bool" where
  "is_digit c = (c \<in> set ''0123456789'')"

text \<open>\<^verbatim>\<open>s.trim()\<close>\<close>

definition trim :: "string \<Rightarrow> string" where
  "trim s = rev (dropWhile is_space (rev (dropWhile is_space s)))"

text \<open>\<^verbatim>\<open>s.replace(/\s+/g, "")\<close>\<close>

definition strip_spaces :: "string \<Rightarrow> string" where
  "strip_spaces s = filter (\<lambda>c. \<not> is_space c) s"

text \<open>\<^verbatim>\<open>s.startsWith(p)\<close>\<close>

definition startsWith :: "string \<Rightarrow> string \<Rightarrow> bool" where
  "startsWith s p = (take (length p) s = p)"

text \<open>\<^verbatim>\<open>/^7\d{8}$/.test(s)\<close>\<close>

definition seven_and_8_digits :: "string \<Rightarrow> bool" where
  "seven_and_8_digits s = (length s = 9 \<and> take 1 s = ''7'' \<and> list_all is_digit (drop 1 s))"

section \<open>The phone normalizer\<close>

text \<open>\<^verbatim>\<open>normalizePhone\<close> of \<^verbatim>\<open>src/index.js\<close>, lines 103 to 114. A falsy argument is
  returned as it is, before any conversion.\<close>

definition normalizePhone :: "jsval \<Rightarrow> jserror + jsval" where
  "normalizePhone p =
     (if \<not> truthy p then Inr p
      else (case String_js p of
              Inl e \<Rightarrow> Inl e
            | Inr s0 \<Rightarrow>
                (let s1 = trim s0;
                     s2 = strip_spaces s1;
                     s3 = (if startsWith s2 ''+'' then drop 1 s2 else s2);
                     s4 = (if startsWith s3 ''0'' then ''254'' @ drop 1 s3 else s3);
                     s5 = (if \<not> startsWith s4 ''254''
                           then (if seven_and_8_digits s4 then ''254'' @ s4 else s4)
                           else s4)
                 in Inr (JStr s5))))"

text \<open>The normalizer as section 4.1 of the specification words it, on the text of the
  value: strip all white space; remove a leading plus; replace a leading zero with 254;
  if the result does not start with 254 and is 7 followed by exactly 8 digits, prepend
  254; otherwise leave it.\<close>

definition normalizePhone_spec :: "string \<Rightarrow> string" where
  "normalizePhone_spec s =
     (let a = filter (\<lambda>c. \<not> is_space c) s;
          b = (case a of c # r \<Rightarrow> (if c = CHR ''+'' then r else a) | [] \<Rightarrow> a);
          c = (case b of d # r \<Rightarrow> (if d = CHR ''0'' then ''254'' @ r else b) | [] \<Rightarrow> b)
      in if take 3 c \<noteq> ''254'' \<and> seven_and_8_digits c then ''254'' @ c else c)"

text \<open>Applying the normalizer to its own result.\<close>

definition normalizePhone_twice :: "jsval \<Rightarrow> jserror + jsval" where
  "normalizePhone_twice p =
     (case normalizePhone p of Inl e \<Rightarrow> Inl e | Inr v \<Rightarrow> normalizePhone v)"

section \<open>Process configuration\<close>

text \<open>The environment variables read at start-up (lines 13 to 22); each is a string or
  absent.\<close>

record config =
  CONSUMER_KEY :: "string option"
  CONSUMER_SECRET :: "string option"
  BUSINESS_SHORTCODE :: "string option"
  MPESA_PASSKEY :: "string option"
  CALLBACK_URL :: "string option"
  MPESA_ENV :: "string option"
  MPESA_MOCK_VAR :: "string option"

text \<open>A variable as the JavaScript value it is, and inside a template literal.\<close>

definition env_val :: "string option \<Rightarrow> jsval" where
  "env_val v = (case v of None \<Rightarrow> JUndefined | Some s \<Rightarrow> JStr s)"

definition env_text :: "string option \<Rightarrow> string" where
  "env_text v = (case v of None \<Rightarrow> ''undefined'' | Some s \<Rightarrow> s)"

text \<open>\<^verbatim>\<open>toLowerCase\<close> on code units below 256.\<close>

definition lower_char :: "char \<Rightarrow> char" where
  "lower_char c =
     (let n = (of_char c :: nat)
      in if (65 \<le> n \<and> n \<le> 90) \<or> (192 \<le> n \<and> n \<le> 222 \<and> n \<noteq> 215) then char_of (n + 32) else c)"

definition toLowerCase :: "string \<Rightarrow> string" where
  "toLowerCase s = map lower_char s"

text \<open>\<^verbatim>\<open>(process.env.MPESA_MOCK || 'false').toLowerCase() === 'true'\<close>\<close>

definition MPESA_MOCK :: "config \<Rightarrow> bool" where
  "MPESA_MOCK cfg =
     (toLowerCase (case MPESA_MOCK_VAR cfg of
                     None \<Rightarrow> ''false''
                   | Some s \<Rightarrow> (if s = [] then ''false'' else s)) = ''true'')"

definition baseURL :: "config \<Rightarrow> string" where
  "baseURL cfg =
     (if MPESA_ENV cfg = Some ''production'' then ''https://api.safaricom.co.ke''
      else ''https://sandbox.safaricom.co.ke'')"

subsection \<open>Base64 of a string\<close>

text \<open>\<^verbatim>\<open>Buffer.from(s)\<close> encodes the string in UTF-8 (two bytes for a code unit from 128
  to 255); \<^verbatim>\<open>toString("base64")\<close> writes three bytes as four characters, padded with
  \<^verbatim>\<open>=\<close>.\<close>

definition utf8 :: "string \<Rightarrow> nat list" where
  "utf8 s =
     concat (map (\<lambda>c. let n = (of_char c :: nat)
                      in if n < 128 then [n] else [192 + n div 64, 128 + n mod 64]) s)"

definition b64_char :: "nat \<Rightarrow> char" where
  "b64_char k =
     ''ABCDEFGHIJKLMNOPQRSTUVWXYZabcdefghijklmnopqrstuvwxyz0123456789+/'' ! (k mod 64)"

fun base64 :: "nat list \<Rightarrow> string" where
  "base64 [] = []"
| "base64 [a] = [b64_char (a div 4), b64_char ((a mod 4) * 16), CHR ''='', CHR ''='']"
| "base64 [a, b] =
     [b64_char (a div 4), b64_char ((a mod 4) * 16 + b div 16), b64_char ((b mod 16) * 4),
      CHR ''='']"
| "base64 (a # b # c # r) =
     [b64_char (a div 4), b64_char ((a mod 4) * 16 + b div 16),
      b64_char ((b mod 16) * 4 + c div 64), b64_char (c mod 64)] @ base64 r"

section \<open>The outside world\<close>

text \<open>
  An outbound call of axios is a request; the gateway's answer to it is a function of
  the calls made before and of the request itself. \<open>Resolved d\<close> is a 2xx response with
  body \<open>d\<close>; \<open>Rejected d m\<close> is an error with message \<open>m\<close>, \<open>d\<close> the body of a non-2xx
  response, or undefined when no response arrived. The clock read by
  \<^verbatim>\<open>new Date().toISOString()\<close> may show another time after every call. The world a
  handler changes is the list of the calls it made and the lines it wrote to the
  console.
\<close>

datatype request =
    AxiosGet string "(string \<times> string) list"
  | AxiosPost string jsval "(string \<times> string) list"

datatype outcome = Resolved jsval | Rejected jsval string

datatype console_line =
    ConsoleLog "jsval list"
  | ConsoleWarn "jsval list"
  | ConsoleError "jsval list"

record env =
  respond :: "request list \<Rightarrow> request \<Rightarrow> outcome"
  now_iso :: "request list \<Rightarrow> string"

record world =
  trace :: "request list"
  console_out :: "console_line list"

definition console_log :: "jsval list \<Rightarrow> world \<Rightarrow> world" where
  "console_log args w = w\<lparr>console_out := console_out w @ [ConsoleLog args]\<rparr>"

definition console_warn :: "jsval list \<Rightarrow> world \<Rightarrow> world" where
  "console_warn args w = w\<lparr>console_out := console_out w @ [ConsoleWarn args]\<rparr>"

definition console_error :: "jsval list \<Rightarrow> world \<Rightarrow> world" where
  "console_error args w = w\<lparr>console_out := console_out w @ [ConsoleError args]\<rparr>"

text \<open>\<^verbatim>\<open>await axios.get(...)\<close>, \<^verbatim>\<open>await axios.post(...)\<close>: the call is recorded; the value is
  \<^verbatim>\<open>response.data\<close>, or the error thrown.\<close>

definition axios_call :: "env \<Rightarrow> request \<Rightarrow> world \<Rightarrow> (jserror + jsval) \<times> world" where
  "axios_call e r w =
     ((case respond e (trace w) r of
         Resolved d \<Rightarrow> Inr d
       | Rejected d m \<Rightarrow> Inl (AxiosError d m)),
      w\<lparr>trace := trace w @ [r]\<rparr>)"

fun is_get :: "request \<Rightarrow> bool" where
  "is_get (AxiosGet u h) = True"
| "is_get (AxiosPost u p h) = False"

fun is_post :: "request \<Rightarrow> bool" where
  "is_post (AxiosGet u h) = False"
| "is_post (AxiosPost u p h) = True"

text \<open>\<^verbatim>\<open>a.response?.data || a.message\<close> of a caught error.\<close>

definition err_details :: "jserror \<Rightarrow> jsval" where
  "err_details err = js_or (err_response_data err) (JStr (err_message err))"

section \<open>The token provider\<close>

definition token_request :: "config \<Rightarrow> request" where
  "token_request cfg =
     AxiosGet (baseURL cfg @ ''/oauth/v1/generate?grant_type=client_credentials'')
       [(''Authorization'',
         ''Basic '' @ base64 (utf8 (env_text (CONSUMER_KEY cfg) @ '':'' @ env_text (CONSUMER_SECRET cfg)))),
        (''Accept'', ''application/json'')]"

text \<open>The \<^verbatim>\<open>try\<close> block of \<^verbatim>\<open>getAccessToken\<close> (lines 58 to 70): the line is logged before
  \<^verbatim>\<open>response.data.access_token\<close> is read.\<close>

definition getAccessToken_try :: "config \<Rightarrow> env \<Rightarrow> world \<Rightarrow> (jserror + jsval) \<times> world" where
  "getAccessToken_try cfg e w =
     (case axios_call e (token_request cfg) w of
        (Inl err, w1) \<Rightarrow> (Inl err, w1)
      | (Inr d, w1) \<Rightarrow>
          (get_prop d ''access_token'',
           console_log [JStr ''Fetched access token successfully''] w1))"

text \<open>\<^verbatim>\<open>getAccessToken\<close> (lines 44 to 75).\<close>

definition getAccessToken :: "config \<Rightarrow> env \<Rightarrow> world \<Rightarrow> (jserror + jsval) \<times> world" where
  "getAccessToken cfg e w =
     (if MPESA_MOCK cfg then (Inr (JStr ''mock-access-token''), w)
      else if \<not> truthy (env_val (CONSUMER_KEY cfg)) \<or> \<not> truthy (env_val (CONSUMER_SECRET cfg)) then
        (Inr JNull,
         console_error
           [JStr ''Cannot fetch access token: missing CONSUMER_KEY or CONSUMER_SECRET''] w)
      else (case getAccessToken_try cfg e w of
              (Inr v, w1) \<Rightarrow> (Inr v, w1)
            | (Inl err, w1) \<Rightarrow>
                (Inr JNull,
                 console_error
                   [JStr ''Error fetching token:'',
                    js_or (get_prop_opt (err_response_data err) ''error_description'')
                      (err_details err)] w1)))"

section \<open>The HTTP boundary\<close>

text \<open>A response sent by \<^verbatim>\<open>res.status(n).json(obj)\<close>; \<^verbatim>\<open>res.json(obj)\<close> sends status 200.\<close>

record http_response =
  status_code :: nat
  json_body :: jsval

definition res_json :: "nat \<Rightarrow> (string \<times> jsval) list \<Rightarrow> http_response" where
  "res_json n props = \<lparr>status_code = n, json_body = JObj props\<rparr>"

text \<open>Inside a handler a block throws, returns from the handler with the response it
  sent, or goes on to the next statement with a value.\<close>

datatype 'a flow = Throw jserror | Return http_response | Next 'a

text \<open>\<^verbatim>\<open>v.slice(0,6) + '...'\<close>, \<open>x\<close> the name of the variable: the first six code units
  of a string; an array is sliced, then joined by the addition; any other value has no
  \<^verbatim>\<open>slice\<close> to call.\<close>

fun slice6_dots :: "string \<Rightarrow> jsval \<Rightarrow> jserror + jsval" where
  "slice6_dots x (JStr s) = Inr (JStr (take 6 s @ ''...''))"
| "slice6_dots x (JArr xs) =
     (case String_js (JArr (take 6 xs)) of Inl e \<Rightarrow> Inl e | Inr s \<Rightarrow> Inr (JStr (s @ ''...'')))"
| "slice6_dots x v = Inl (TypeError (x @ ''.slice is not a function''))"

subsection \<open>POST /api/pay\<close>

text \<open>\<^verbatim>\<open>const { phone, amount, name } = req.body\<close> (line 79), outside every \<^verbatim>\<open>try\<close>.\<close>

definition destructure_body :: "jsval \<Rightarrow> jserror + (jsval \<times> jsval \<times> jsval)" where
  "destructure_body b =
     (if b = JUndefined then
        Inl (TypeError ''Cannot destructure property 'phone' of 'req.body' as it is undefined.'')
      else if b = JNull then
        Inl (TypeError ''Cannot destructure property 'phone' of 'req.body' as it is null.'')
      else Inr (get_prop_opt b ''phone'', get_prop_opt b ''amount'', get_prop_opt b ''name''))"

text \<open>\<^verbatim>\<open>iso.replace(/[-T:\.Z]/g, "").slice(0, 14)\<close> (line 119).\<close>

definition timestamp_of :: "string \<Rightarrow> string" where
  "timestamp_of t = take 14 (filter (\<lambda>c. c \<notin> set ''-T:.Z'') t)"

text \<open>The payload object of lines 120 to 134, \<open>nm\<close> the text of \<^verbatim>\<open>name || 'customer'\<close>.\<close>

definition payload :: "config \<Rightarrow> string \<Rightarrow> jsval \<Rightarrow> jsval \<Rightarrow> string \<Rightarrow> jsval" where
  "payload cfg timestamp amount partyA nm =
     JObj
      [(''BusinessShortCode'', env_val (BUSINESS_SHORTCODE cfg)),
       (''Password'',
        JStr (base64 (utf8 (env_text (BUSINESS_SHORTCODE cfg) @ env_text (MPESA_PASSKEY cfg) @ timestamp)))),
       (''Timestamp'', JStr timestamp),
       (''TransactionType'', JStr ''CustomerPayBillOnline''),
       (''Amount'', amount),
       (''PartyA'', partyA),
       (''PartyB'', env_val (BUSINESS_SHORTCODE cfg)),
       (''PhoneNumber'', partyA),
       (''CallBackURL'', env_val (CALLBACK_URL cfg)),
       (''AccountReference'', JStr ''MPESA_PAYMENT''),
       (''TransactionDesc'', JStr (''Payment by '' @ nm))]"

text \<open>\<^verbatim>\<open>stkRequest\<close> (lines 136 to 147): the header is built from the token, then the
  payload of the enclosing scope is posted.\<close>

definition stk_headers :: "string \<Rightarrow> (string \<times> string) list" where
  "stk_headers t =
     [(''Authorization'', ''Bearer '' @ t), (''Content-Type'', ''application/json''),
      (''Accept'', ''application/json'')]"

definition stk_url :: "config \<Rightarrow> string" where
  "stk_url cfg = baseURL cfg @ ''/mpesa/stkpush/v1/processrequest''"

definition stkRequest :: "config \<Rightarrow> env \<Rightarrow> jsval \<Rightarrow> jsval \<Rightarrow> world \<Rightarrow> (jserror + jsval) \<times> world" where
  "stkRequest cfg e pl token w =
     (case String_js token of
        Inl err \<Rightarrow> (Inl err, w)
      | Inr t \<Rightarrow> axios_call e (AxiosPost (stk_url cfg) pl (stk_headers t)) w)"

text \<open>\<^verbatim>\<open>/Invalid Access Token/i.test(s)\<close>: the pattern occurs somewhere in the text, letters
  compared without case.\<close>

definition upper_ascii :: "char \<Rightarrow> char" where
  "upper_ascii c =
     (let n = (of_char c :: nat) in if 97 \<le> n \<and> n \<le> 122 then char_of (n - 32) else c)"

fun matches_here :: "string \<Rightarrow> string \<Rightarrow> bool" where
  "matches_here [] s = True"
| "matches_here (p # ps) [] = False"
| "matches_here (p # ps) (c # cs) = (upper_ascii p = upper_ascii c \<and> matches_here ps cs)"

fun search_nocase :: "string \<Rightarrow> string \<Rightarrow> bool" where
  "search_nocase pat [] = matches_here pat []"
| "search_nocase pat (c # cs) = (matches_here pat (c # cs) \<or> search_nocase pat cs)"

text \<open>The condition of line 161 on \<^verbatim>\<open>remote = err.response?.data\<close>.\<close>

definition invalid_token :: "jsval \<Rightarrow> jserror + bool" where
  "invalid_token remote =
     (if \<not> truthy remote then Inr False
      else if get_prop_opt remote ''errorCode'' = JStr ''404.001.03'' then Inr True
      else (case String_js (js_or (get_prop_opt remote ''errorMessage'') (JStr [])) of
              Inl err \<Rightarrow> Inl err
            | Inr s \<Rightarrow> Inr (search_nocase ''Invalid Access Token'' s)))"

definition no_token_response :: http_response where
  "no_token_response =
     res_json 500
       [(''success'', JBool False),
        (''message'', JStr ''Server not configured to fetch access token. Check environment variables.'')]"

text \<open>Lines 149 to 179: the first submission, and on an invalid-token error one token
  refresh and one resubmission. The value handed on is \<^verbatim>\<open>response.data\<close>.\<close>

definition submit :: "config \<Rightarrow> env \<Rightarrow> jsval \<Rightarrow> jsval \<Rightarrow> world \<Rightarrow> jsval flow \<times> world" where
  "submit cfg e pl access_token w =
     (case (if MPESA_MOCK cfg then
              (Inr (JObj [(''ResponseCode'', JStr ''0''),
                          (''CustomerMessage'', JStr ''Success. Request accepted for processing'')]),
               console_log [JStr ''Simulated STK Push response (mock)''] w)
            else stkRequest cfg e pl access_token w) of
        (Inr d, w1) \<Rightarrow> (Next d, w1)
      | (Inl err, w1) \<Rightarrow>
          (case invalid_token (err_response_data err) of
             Inl terr \<Rightarrow> (Throw terr, w1)
           | Inr True \<Rightarrow>
               (case getAccessToken cfg e
                       (console_warn
                          [JStr ''Invalid access token detected from M-PESA, attempting to refresh token and retry STK once'']
                          w1) of
                  (Inl gerr, w2) \<Rightarrow> (Throw gerr, w2)
                | (Inr token2, w2) \<Rightarrow>
                    (if truthy token2 then
                       (case stkRequest cfg e pl token2 w2 of
                          (Inr d2, w3) \<Rightarrow> (Next d2, w3)
                        | (Inl err2, w3) \<Rightarrow>
                            (Return
                               (res_json 502
                                  [(''success'', JBool False),
                                   (''message'', JStr ''STK request failed after token refresh''),
                                   (''details'', err_details err2)]),
                             console_error [JStr ''STK retry failed:'', err_details err2] w3))
                     else
                       (Return
                          (res_json 502
                             [(''success'', JBool False),
                              (''message'', JStr ''Unable to refresh access token. Check credentials.'')]),
                        w2)))
           | Inr False \<Rightarrow>
               (Return
                  (res_json 502
                     [(''success'', JBool False),
                      (''message'', JStr ''STK request failed''),
                      (''details'', err_details err)]),
                console_error [JStr ''STK request error:'', err_details err] w1)))"

text \<open>Lines 183 to 192: the response is accepted when its code is the string 0.\<close>

definition accepted :: "jsval \<Rightarrow> bool" where
  "accepted d = (truthy d \<and> get_prop_opt d ''ResponseCode'' = JStr ''0'')"

definition stk_result :: "jsval \<Rightarrow> http_response" where
  "stk_result d =
     (if accepted d then
        res_json 200 [(''success'', JBool True), (''message'', JStr ''STK Push sent to phone.'')]
      else
        res_json 400
          [(''success'', JBool False),
           (''message'', JStr ''Failed to send STK Push.''),
           (''details'', js_or d JNull)])"

text \<open>The masked token is logged inside its own \<^verbatim>\<open>try\<close> with an empty \<^verbatim>\<open>catch\<close>
  (line 97).\<close>

definition log_masked :: "jsval \<Rightarrow> world \<Rightarrow> world" where
  "log_masked token w =
     (case slice6_dots ''access_token'' token of
        Inl err \<Rightarrow> w
      | Inr m \<Rightarrow> console_log [JStr ''Access token (masked):'', m] w)"

text \<open>The outer \<^verbatim>\<open>try\<close> block of the handler (lines 92 to 192).\<close>

definition pay_try ::
  "config \<Rightarrow> env \<Rightarrow> jsval \<Rightarrow> jsval \<Rightarrow> jsval \<Rightarrow> world \<Rightarrow> (jserror + http_response) \<times> world" where
  "pay_try cfg e phone amount name w =
     (case getAccessToken cfg e w of
        (Inl err, w1) \<Rightarrow> (Inl err, w1)
      | (Inr access_token, w1) \<Rightarrow>
          (if \<not> truthy access_token then (Inr no_token_response, w1)
           else
             (let w2 = log_masked access_token w1 in
              (case normalizePhone phone of
                 Inl err \<Rightarrow> (Inl err, w2)
               | Inr partyA \<Rightarrow>
                   (let timestamp = timestamp_of (now_iso e (trace w2)) in
                    (case String_js (js_or name (JStr ''customer'')) of
                       Inl err \<Rightarrow> (Inl err, w2)
                     | Inr nm \<Rightarrow>
                         (case submit cfg e (payload cfg timestamp amount partyA nm) access_token w2 of
                            (Throw err, w3) \<Rightarrow> (Inl err, w3)
                          | (Return r, w3) \<Rightarrow> (Inr r, w3)
                          | (Next d, w3) \<Rightarrow>
                              (Inr (stk_result d),
                               console_log [JStr ''STK Push response received''] w3))))))))"

text \<open>The handler of \<^verbatim>\<open>POST /api/pay\<close> (lines 78 to 197) on \<^verbatim>\<open>req.body\<close>. \<open>Inl\<close> is an error
  that leaves the handler.\<close>

definition pay :: "config \<Rightarrow> env \<Rightarrow> jsval \<Rightarrow> world \<Rightarrow> (jserror + http_response) \<times> world" where
  "pay cfg e req_body w =
     (case destructure_body req_body of
        Inl err \<Rightarrow> (Inl err, w)
      | Inr (phone, amount, name) \<Rightarrow>
          (if \<not> truthy phone \<or> \<not> truthy amount then
             (Inr (res_json 400
                     [(''success'', JBool False),
                      (''message'', JStr ''Missing phone or amount in request body.'')]),
              w)
           else if MPESA_MOCK cfg then
             (Inr (res_json 200
                     [(''success'', JBool True),
                      (''message'', JStr ''STK Push sent to phone. (mock)'')]),
              console_log
                [JStr ''MPESA_MOCK enabled - returning simulated STK success (no external call)''] w)
           else
             (case pay_try cfg e phone amount name w of
                (Inr r, w1) \<Rightarrow> (Inr r, w1)
              | (Inl err, w1) \<Rightarrow>
                  (Inr (res_json 500
                          [(''success'', JBool False),
                           (''message'', JStr ''Server error while processing payment.'')]),
                   console_error [JStr ''M-PESA Error:'', err_details err] w1))))"

text \<open>
  The handler with its token provider as a parameter: the text of \<open>submit\<close>, \<open>pay_try\<close> and
  \<open>pay\<close> above, with \<open>tp\<close> at the two places where the source calls
  \<^verbatim>\<open>getAccessToken()\<close> (lines 92 and 163). At the provider of the source it is the handler
  (lemma \<open>pay_with_getAccessToken\<close> below). A run that is the same for every provider,
  also for one that raises or makes a call, does not reach either place.
\<close>

type_synonym token_provider = "world \<Rightarrow> (jserror + jsval) \<times> world"

definition submit_with ::
  "token_provider \<Rightarrow> config \<Rightarrow> env \<Rightarrow> jsval \<Rightarrow> jsval \<Rightarrow> world \<Rightarrow> jsval flow \<times> world" where
  "submit_with tp cfg e pl access_token w =
     (case (if MPESA_MOCK cfg then
              (Inr (JObj [(''ResponseCode'', JStr ''0''),
                          (''CustomerMessage'', JStr ''Success. Request accepted for processing'')]),
               console_log [JStr ''Simulated STK Push response (mock)''] w)
            else stkRequest cfg e pl access_token w) of
        (Inr d, w1) \<Rightarrow> (Next d, w1)
      | (Inl err, w1) \<Rightarrow>
          (case invalid_token (err_response_data err) of
             Inl terr \<Rightarrow> (Throw terr, w1)
           | Inr True \<Rightarrow>
               (case tp
                       (console_warn
                          [JStr ''Invalid access token detected from M-PESA, attempting to refresh token and retry STK once'']
                          w1) of
                  (Inl gerr, w2) \<Rightarrow> (Throw gerr, w2)
                | (Inr token2, w2) \<Rightarrow>
                    (if truthy token2 then
                       (case stkRequest cfg e pl token2 w2 of
                          (Inr d2, w3) \<Rightarrow> (Next d2, w3)
                        | (Inl err2, w3) \<Rightarrow>
                            (Return
                               (res_json 502
                                  [(''success'', JBool False),
                                   (''message'', JStr ''STK request failed after token refresh''),
                                   (''details'', err_details err2)]),
                             console_error [JStr ''STK retry failed:'', err_details err2] w3))
                     else
                       (Return
                          (res_json 502
                             [(''success'', JBool False),
                              (''message'', JStr ''Unable to refresh access token. Check credentials.'')]),
                        w2)))
           | Inr False \<Rightarrow>
               (Return
                  (res_json 502
                     [(''success'', JBool False),
                      (''message'', JStr ''STK request failed''),
                      (''details'', err_details err)]),
                console_error [JStr ''STK request error:'', err_details err] w1)))"

definition pay_try_with ::
  "token_provider \<Rightarrow> config \<Rightarrow> env \<Rightarrow> jsval \<Rightarrow> jsval \<Rightarrow> jsval \<Rightarrow> world \<Rightarrow>
   (jserror + http_response) \<times> world" where
  "pay_try_with tp cfg e phone amount name w =
     (case tp w of
        (Inl err, w1) \<Rightarrow> (Inl err, w1)
      | (Inr access_token, w1) \<Rightarrow>
          (if \<not> truthy access_token then (Inr no_token_response, w1)
           else
             (let w2 = log_masked access_token w1 in
              (case normalizePhone phone of
                 Inl err \<Rightarrow> (Inl err, w2)
               | Inr partyA \<Rightarrow>
                   (let timestamp = timestamp_of (now_iso e (trace w2)) in
                    (case String_js (js_or name (JStr ''customer'')) of
                       Inl err \<Rightarrow> (Inl err, w2)
                     | Inr nm \<Rightarrow>
                         (case submit_with tp cfg e (payload cfg timestamp amount partyA nm) access_token w2 of
                            (Throw err, w3) \<Rightarrow> (Inl err, w3)
                          | (Return r, w3) \<Rightarrow> (Inr r, w3)
                          | (Next d, w3) \<Rightarrow>
                              (Inr (stk_result d),
                               console_log [JStr ''STK Push response received''] w3))))))))"

definition pay_with ::
  "token_provider \<Rightarrow> config \<Rightarrow> env \<Rightarrow> jsval \<Rightarrow> world \<Rightarrow> (jserror + http_response) \<times> world" where
  "pay_with tp cfg e req_body w =
     (case destructure_body req_body of
        Inl err \<Rightarrow> (Inl err, w)
      | Inr (phone, amount, name) \<Rightarrow>
          (if \<not> truthy phone \<or> \<not> truthy amount then
             (Inr (res_json 400
                     [(''success'', JBool False),
                      (''message'', JStr ''Missing phone or amount in request body.'')]),
              w)
           else if MPESA_MOCK cfg then
             (Inr (res_json 200
                     [(''success'', JBool True),
                      (''message'', JStr ''STK Push sent to phone. (mock)'')]),
              console_log
                [JStr ''MPESA_MOCK enabled - returning simulated STK success (no external call)''] w)
           else
             (case pay_try_with tp cfg e phone amount name w of
                (Inr r, w1) \<Rightarrow> (Inr r, w1)
              | (Inl err, w1) \<Rightarrow>
                  (Inr (res_json 500
                          [(''success'', JBool False),
                           (''message'', JStr ''Server error while processing payment.'')]),
                   console_error [JStr ''M-PESA Error:'', err_details err] w1))))"

subsection \<open>GET /api/token\<close>

text \<open>The handler of lines 200 to 211. A caught error without a message would be sent as
  the error object, which serialises as an empty object.\<close>

definition api_token :: "config \<Rightarrow> env \<Rightarrow> world \<Rightarrow> http_response \<times> world" where
  "api_token cfg e w =
     (if MPESA_MOCK cfg then
        (res_json 200
           [(''success'', JBool True), (''message'', JStr ''Fetched access token (mock)''),
            (''token'', JStr ''mock-a...'')],
         w)
      else
        (case getAccessToken cfg e w of
           (Inl err, w1) \<Rightarrow>
             (res_json 500
                [(''success'', JBool False), (''message'', JStr ''Error fetching token''),
                 (''details'', js_or (JStr (err_message err)) (JObj []))],
              w1)
         | (Inr token, w1) \<Rightarrow>
             (if \<not> truthy token then
                (res_json 502
                   [(''success'', JBool False),
                    (''message'', JStr ''Unable to fetch access token. Check credentials.'')],
                 w1)
              else
                (case slice6_dots ''token'' token of
                   Inl err \<Rightarrow>
                     (res_json 500
                        [(''success'', JBool False), (''message'', JStr ''Error fetching token''),
                         (''details'', js_or (JStr (err_message err)) (JObj []))],
                      w1)
                 | Inr masked \<Rightarrow>
                     (res_json 200
                        [(''success'', JBool True), (''message'', JStr ''Fetched access token''),
                         (''token'', masked)],
                      w1)))))"

section \<open>Derived notions\<close>

text \<open>Both credentials are configured: the negation of the test of line 50.\<close>

definition has_credentials :: "config \<Rightarrow> bool" where
  "has_credentials cfg = (truthy (env_val (CONSUMER_KEY cfg)) \<and> truthy (env_val (CONSUMER_SECRET cfg)))"

text \<open>The value \<^verbatim>\<open>getAccessToken\<close> returns when its request has the given outcome: the
  \<^verbatim>\<open>access_token\<close> property of a 2xx body, null when the request is rejected or the body
  has no properties to read (lemma \<open>getAccessToken_call\<close> below).\<close>

definition granted_token :: "outcome \<Rightarrow> jsval" where
  "granted_token out =
     (case out of
        Resolved d \<Rightarrow> (case get_prop d ''access_token'' of Inl err \<Rightarrow> JNull | Inr t \<Rightarrow> t)
      | Rejected d m \<Rightarrow> JNull)"

section \<open>Concrete configurations and gateways\<close>

text \<open>
  Configurations: a configured sandbox process, the same with mock mode switched on, the
  same without the secret. Worlds: an empty one, and one in which a token request has
  been made. Request bodies: the request of section 8 of the specification, one whose
  amount is a text, one whose amount is 0. Gateways: one that rejects the first token as
  invalid and accepts the second; one whose token endpoint is down when the token is to
  be refreshed; one that is down altogether; one that grants a token and then fails in
  transport; one that declines the push with response code 1. The clock moves between
  the first submission and a retry. \<open>payload_10\<close> and \<open>post_10\<close> abbreviate the payload and
  the submission built for the request of section 8, \<open>payload_text\<close> and \<open>post_text\<close> those
  built for the text amount.
\<close>

definition cfg_live :: config where
  "cfg_live = \<lparr>CONSUMER_KEY = Some ''key'', CONSUMER_SECRET = Some ''secret'',
     BUSINESS_SHORTCODE = Some ''174379'', MPESA_PASSKEY = Some ''passkey'',
     CALLBACK_URL = Some ''https://example.com/mpesa/callback'', MPESA_ENV = None,
     MPESA_MOCK_VAR = None\<rparr>"

definition cfg_mock :: config where
  "cfg_mock = cfg_live\<lparr>MPESA_MOCK_VAR := Some ''TRUE''\<rparr>"

definition w0 :: world where
  "w0 = \<lparr>trace = [], console_out = []\<rparr>"

definition body_10 :: jsval where
  "body_10 = JObj [(''phone'', JStr ''0712345678''), (''amount'', JNum 10)]"

definition expired_body :: jsval where
  "expired_body =
     JObj [(''requestId'', JStr ''r-1''), (''errorCode'', JStr ''404.001.03''),
           (''errorMessage'', JStr ''Invalid Access Token'')]"

definition clock_two :: "request list \<Rightarrow> string" where
  "clock_two h = (if length h < 2 then ''2024-01-02T03:04:05.678Z'' else ''2024-01-02T03:04:09.000Z'')"

definition env_expired_once :: env where
  "env_expired_once =
     \<lparr>respond = (\<lambda>h r.
         if is_get r then
           Resolved (JObj [(''access_token'', JStr (if h = [] then ''token-1-stale'' else ''token-2-fresh'')),
                           (''expires_in'', JStr ''3599'')])
         else if length h < 2 then Rejected expired_body ''Request failed with status code 404''
         else Resolved (JObj [(''ResponseCode'', JStr ''0''),
                              (''CustomerMessage'', JStr ''Success. Request accepted for processing'')])),
      now_iso = clock_two\<rparr>"

definition env_refresh_fails :: env where
  "env_refresh_fails =
     \<lparr>respond = (\<lambda>h r.
         if is_get r then
           (if h = [] then Resolved (JObj [(''access_token'', JStr ''token-1-stale'')])
            else Rejected JUndefined ''Network Error'')
         else Rejected expired_body ''Request failed with status code 404''),
      now_iso = clock_two\<rparr>"

abbreviation payload_10 :: jsval where
  "payload_10 \<equiv> payload cfg_live ''20240102030405'' (JNum 10) (JStr ''254712345678'') ''customer''"

abbreviation post_10 :: "string \<Rightarrow> request" where
  "post_10 t \<equiv> AxiosPost (stk_url cfg_live) payload_10 (stk_headers t)"

abbreviation payload_text :: jsval where
  "payload_text \<equiv> payload cfg_live ''20240102030405'' (JStr ''ten'') (JStr ''254712345678'') ''customer''"

abbreviation post_text :: "string \<Rightarrow> request" where
  "post_text t \<equiv> AxiosPost (stk_url cfg_live) payload_text (stk_headers t)"

definition cfg_unconfigured :: config where
  "cfg_unconfigured = cfg_live\<lparr>CONSUMER_SECRET := None\<rparr>"

definition body_text_amount :: jsval where
  "body_text_amount = JObj [(''phone'', JStr ''0712345678''), (''amount'', JStr ''ten'')]"

definition body_zero_amount :: jsval where
  "body_zero_amount = JObj [(''phone'', JStr ''0712345678''), (''amount'', JNum 0)]"

definition env_token_down :: env where
  "env_token_down =
     \<lparr>respond = (\<lambda>h r. Rejected JUndefined ''Network Error''), now_iso = clock_two\<rparr>"

definition env_gateway_down :: env where
  "env_gateway_down =
     \<lparr>respond = (\<lambda>h r.
         if is_get r then Resolved (JObj [(''access_token'', JStr ''token-1-stale'')])
         else Rejected JUndefined ''Network Error''),
      now_iso = clock_two\<rparr>"

definition declined_body :: jsval where
  "declined_body =
     JObj [(''ResponseCode'', JStr ''1''), (''ResponseDescription'', JStr ''Rejected'')]"

definition env_declined :: env where
  "env_declined =
     \<lparr>respond = (\<lambda>h r.
         if is_get r then Resolved (JObj [(''access_token'', JStr ''token-1-stale'')])
         else Resolved declined_body),
      now_iso = clock_two\<rparr>"

definition w_after_token :: world where
  "w_after_token = \<lparr>trace = [token_request cfg_live], console_out = []\<rparr>"

text \<open>
  Further gateways: one whose token endpoint answers 2xx with a body that carries no
  \<^verbatim>\<open>access_token\<close>; one that grants a token and rejects the submission with a body whose
  \<^verbatim>\<open>errorMessage\<close> cannot be converted to a string. A token provider that raises and
  records a call, to observe whether the provider is reached.
\<close>

definition env_no_token :: env where
  "env_no_token =
     \<lparr>respond = (\<lambda>h r. Resolved (JObj [(''expires_in'', JStr ''3599'')])), now_iso = clock_two\<rparr>"

definition unprintable_body :: jsval where
  "unprintable_body = JObj [(''errorMessage'', JObj [(''toString'', JNum 1)])]"

definition env_unprintable_error :: env where
  "env_unprintable_error =
     \<lparr>respond = (\<lambda>h r.
         if is_get r then Resolved (JObj [(''access_token'', JStr ''token-1-stale'')])
         else Rejected unprintable_body ''Request failed with status code 500''),
      now_iso = clock_two\<rparr>"

definition probe_provider :: token_provider where
  "probe_provider w =
     (Inl (TypeError ''the token provider was called''),
      w\<lparr>trace := trace w @ [token_request cfg_live]\<rparr>)"

section \<open>The phone normalizer: proofs\<close>

lemma filter_dropWhile_space: "filter (\<lambda>c. \<not> is_space c) (dropWhile is_space s) = filter (\<lambda>c. \<not> is_space c) s"
  by (induction s) auto

lemma strip_spaces_trim: "strip_spaces (trim s) = strip_spaces s"
proof -
  have "strip_spaces (trim s) = rev (filter (\<lambda>c. \<not> is_space c) (dropWhile is_space (rev (dropWhile is_space s))))"
    by (simp add: strip_spaces_def trim_def rev_filter)
  also have "\<dots> = rev (filter (\<lambda>c. \<not> is_space c) (rev (dropWhile is_space s)))"
    by (simp only: filter_dropWhile_space)
  also have "\<dots> = filter (\<lambda>c. \<not> is_space c) (dropWhile is_space s)"
    by (simp add: rev_filter)
  finally show ?thesis by (simp add: strip_spaces_def filter_dropWhile_space)
qed

lemma drop_lead: "(if startsWith x [c] then drop 1 x else x) = (case x of d # r \<Rightarrow> (if d = c then r else x) | [] \<Rightarrow> x)"
  by (cases x) (simp_all add: startsWith_def)

lemma replace_lead: "(if startsWith x [c] then p @ drop 1 x else x) = (case x of d # r \<Rightarrow> (if d = c then p @ r else x) | [] \<Rightarrow> x)"
  by (cases x) (simp_all add: startsWith_def)

lemma startsWith_254: "startsWith x ''254'' = (take 3 x = ''254'')"
  by (simp add: startsWith_def numeral_3_eq_3)

lemma normalizePhone_nonempty:
  "s \<noteq> [] \<Longrightarrow> normalizePhone (JStr s) = Inr (JStr (normalizePhone_spec s))"
  unfolding normalizePhone_def normalizePhone_spec_def String_js_def Let_def
    strip_spaces_def strip_spaces_trim [unfolded strip_spaces_def] drop_lead replace_lead startsWith_254
  by simp

lemma normalizePhone_spec_Nil: "normalizePhone_spec [] = []"
  by (simp add: normalizePhone_spec_def seven_and_8_digits_def)

lemma normalizePhone_str: "normalizePhone (JStr s) = Inr (JStr (normalizePhone_spec s))"
  by (cases "s = []") (simp_all add: normalizePhone_nonempty normalizePhone_spec_Nil, simp add: normalizePhone_def)

lemma is_digit_digit_char: "is_digit (digit_char k)"
proof -
  have "''0123456789'' ! (k mod 10) \<in> set ''0123456789''" by (rule nth_mem) simp
  then show ?thesis by (simp only: is_digit_def digit_char_def)
qed

lemma show_nat_digits: "list_all is_digit (show_nat n) \<and> show_nat n \<noteq> []"
proof (induction n rule: show_nat.induct)
  case (1 n)
  show ?case
  proof (cases "n < 10")
    case True
    then show ?thesis by (simp add: show_nat.simps [of n] is_digit_digit_char)
  next
    case False
    with 1 show ?thesis by (simp add: show_nat.simps [of n] is_digit_digit_char)
  qed
qed

lemma spec_fix:
  assumes "\<forall>c \<in> set t. \<not> is_space c" and "take 1 t \<noteq> ''+''" and "take 1 t \<noteq> ''0''"
    and "take 3 t = ''254'' \<or> \<not> seven_and_8_digits t"
  shows "normalizePhone_spec t = t"
proof -
  have "filter (\<lambda>c. \<not> is_space c) t = t" using assms(1) by (simp add: filter_id_conv)
  then show ?thesis
    using assms(2-) by (cases t) (auto simp: normalizePhone_spec_def Let_def)
qed

lemma not_space_254: "\<not> is_space CHR ''2''" "\<not> is_space CHR ''5''" "\<not> is_space CHR ''4''"
  by (simp_all add: is_space_def)

lemma spec_chars_aux:
  "set (let b = (case a of c # r \<Rightarrow> (if c = CHR ''+'' then r else a) | [] \<Rightarrow> a);
            c = (case b of d # r \<Rightarrow> (if d = CHR ''0'' then ''254'' @ r else b) | [] \<Rightarrow> b)
        in if take 3 c \<noteq> ''254'' \<and> seven_and_8_digits c then ''254'' @ c else c)
   \<subseteq> set a \<union> set ''254''"
  by (auto simp: Let_def split: list.splits if_splits)

lemma spec_chars: "set (normalizePhone_spec s) \<subseteq> {c \<in> set s. \<not> is_space c} \<union> set ''254''"
  using spec_chars_aux [of "filter (\<lambda>c. \<not> is_space c) s", unfolded Let_def]
  unfolding normalizePhone_spec_def Let_def by simp

lemma spec_no_space: "\<forall>c \<in> set (normalizePhone_spec s). \<not> is_space c"
  using spec_chars [of s] by (auto simp: not_space_254)

lemma spec_no_zero: "take 1 (normalizePhone_spec s) \<noteq> ''0''"
  unfolding normalizePhone_spec_def Let_def
  by (auto split: list.splits if_splits)

lemma spec_final: "take 3 (normalizePhone_spec s) = ''254'' \<or> \<not> seven_and_8_digits (normalizePhone_spec s)"
  unfolding normalizePhone_spec_def Let_def
  by (simp split: list.splits if_splits)

lemma spec_strip: "normalizePhone_spec (strip_spaces s) = normalizePhone_spec s"
  by (simp add: normalizePhone_spec_def strip_spaces_def)

lemma spec_plus_plus:
  assumes "\<forall>c \<in> set y. \<not> is_space c"
  shows "normalizePhone_spec (CHR ''+'' # CHR ''+'' # y) = CHR ''+'' # y"
proof -
  have "filter (\<lambda>c. \<not> is_space c) y = y" using assms by (simp add: filter_id_conv)
  then show ?thesis
    by (simp add: normalizePhone_spec_def is_space_def seven_and_8_digits_def)
qed

lemma spec_plus:
  assumes "\<forall>c \<in> set y. \<not> is_space c"
  shows "normalizePhone_spec (CHR ''+'' # y) \<noteq> CHR ''+'' # y"
proof -
  have "filter (\<lambda>c. \<not> is_space c) y = y" using assms by (simp add: filter_id_conv)
  then show ?thesis
    by (cases y) (auto simp: normalizePhone_spec_def is_space_def Let_def)
qed

lemma spec_no_plus:
  "\<not> startsWith (strip_spaces s) ''++'' \<Longrightarrow> take 1 (normalizePhone_spec s) \<noteq> ''+''"
  unfolding normalizePhone_spec_def Let_def strip_spaces_def startsWith_def
  by (cases "filter (\<lambda>c. \<not> is_space c) s") (auto split: list.splits if_splits)

lemma spec_idem_iff:
  "(normalizePhone_spec (normalizePhone_spec s) = normalizePhone_spec s) = (\<not> startsWith (strip_spaces s) ''++'')"
proof (cases "startsWith (strip_spaces s) ''++''")
  case False
  then show ?thesis
    using spec_fix [OF spec_no_space spec_no_plus spec_no_zero spec_final, of s] by simp
next
  case True
  then obtain y where y: "strip_spaces s = CHR ''+'' # CHR ''+'' # y"
    by (cases "strip_spaces s" rule: list.exhaust; cases "tl (strip_spaces s)") (auto simp: startsWith_def)
  have ns: "\<forall>c \<in> set y. \<not> is_space c"
    using arg_cong [OF y, of set] by (auto simp: strip_spaces_def)
  have "normalizePhone_spec s = CHR ''+'' # y"
    using spec_plus_plus [OF ns] spec_strip [of s] y by simp
  then show ?thesis using spec_plus [OF ns] True by simp
qed

lemma normalizePhone_text:
  assumes "truthy p" and "ToString p = Some s"
  shows "normalizePhone p = Inr (JStr (normalizePhone_spec s))"
proof -
  have "normalizePhone p = normalizePhone (JStr s) \<or> s = []"
    using assms by (auto simp: normalizePhone_def String_js_def)
  moreover have "s = [] \<Longrightarrow> normalizePhone p = Inr (JStr [])"
    using assms by (simp add: normalizePhone_def String_js_def trim_def strip_spaces_def startsWith_def
        seven_and_8_digits_def)
  ultimately show ?thesis by (auto simp: normalizePhone_str normalizePhone_spec_Nil)
qed

lemma show_int_chars: "c \<in> set (show_int n) \<Longrightarrow> is_digit c \<or> c = CHR ''-''"
  using show_nat_digits by (auto simp: show_int_def list_all_iff split: if_splits)

lemma show_int_no_plus: "\<not> startsWith (strip_spaces (show_int n)) ''++''"
proof
  assume "startsWith (strip_spaces (show_int n)) ''++''"
  then have "CHR ''+'' \<in> set (strip_spaces (show_int n))"
    by (cases "strip_spaces (show_int n)") (auto simp: startsWith_def)
  then have "CHR ''+'' \<in> set (show_int n)" by (simp add: strip_spaces_def)
  then show False using show_int_chars [of "CHR ''+''" n] by (simp add: is_digit_def)
qed

section \<open>Runs of the handlers\<close>

lemma res_json_eq [simp]: "(res_json a b = res_json c d) = (a = c \<and> b = d)"
  by (simp add: res_json_def)

lemma status_res_json [simp]: "status_code (res_json a b) = a" "json_body (res_json a b) = JObj b"
  by (simp_all add: res_json_def)

lemma token_request_is_get [simp]: "is_get (token_request cfg)" "\<not> is_post (token_request cfg)"
  "token_request cfg \<noteq> AxiosPost u pl hs"  "AxiosPost u pl hs \<noteq> token_request cfg"
  by (simp_all add: token_request_def)

lemma getAccessToken_mock:
  "MPESA_MOCK cfg \<Longrightarrow> getAccessToken cfg e w = (Inr (JStr ''mock-access-token''), w)"
  by (simp add: getAccessToken_def)

lemma getAccessToken_no_credentials:
  "\<not> MPESA_MOCK cfg \<Longrightarrow> \<not> has_credentials cfg \<Longrightarrow>
   getAccessToken cfg e w =
     (Inr JNull, console_error [JStr ''Cannot fetch access token: missing CONSUMER_KEY or CONSUMER_SECRET''] w)"
  by (auto simp add: getAccessToken_def has_credentials_def)

lemma getAccessToken_call:
  assumes "\<not> MPESA_MOCK cfg" "has_credentials cfg"
  shows "\<exists>w1. getAccessToken cfg e w = (Inr (granted_token (respond e (trace w) (token_request cfg))), w1)
            \<and> trace w1 = trace w @ [token_request cfg]"
  using assms
  by (cases "respond e (trace w) (token_request cfg)")
     (auto simp: getAccessToken_def getAccessToken_try_def axios_call_def has_credentials_def
        granted_token_def console_log_def console_error_def split: sum.splits)

lemma getAccessToken_total: "\<exists>v w1. getAccessToken cfg e w = (Inr v, w1)"
  by (auto simp: getAccessToken_def getAccessToken_try_def axios_call_def split: sum.splits prod.splits outcome.splits)

lemma getAccessToken_truthy:
  assumes "\<not> MPESA_MOCK cfg" "getAccessToken cfg e w = (Inr v, w1)" "truthy v"
  shows "has_credentials cfg"
  using assms getAccessToken_no_credentials [of cfg e w] by (cases "has_credentials cfg") auto

lemma stkRequest_unprintable:
  "String_js tok = Inl err \<Longrightarrow> stkRequest cfg e pl tok w = (Inl err, w)"
  by (simp add: stkRequest_def)

lemma stkRequest_call:
  "String_js tok = Inr t \<Longrightarrow>
   \<exists>w1. stkRequest cfg e pl tok w =
          ((case respond e (trace w) (AxiosPost (stk_url cfg) pl (stk_headers t)) of
              Resolved d \<Rightarrow> Inr d | Rejected d m \<Rightarrow> Inl (AxiosError d m)), w1)
        \<and> trace w1 = trace w @ [AxiosPost (stk_url cfg) pl (stk_headers t)]"
  by (simp add: stkRequest_def axios_call_def)

lemma String_js_error: "String_js v = Inl err \<Longrightarrow> err = no_primitive"
  by (simp add: String_js_def split: option.splits)

lemma invalid_token_undefined [simp]: "invalid_token JUndefined = Inr False"
  by (simp add: invalid_token_def)

lemma err_details_axios [simp]: "err_details (AxiosError d m) = js_or d (JStr m)"
  by (simp add: err_details_def)

lemma err_details_type [simp]: "err_details (TypeError m) = JStr m"
  by (simp add: err_details_def js_or_def)

lemma submit_run [consumes 3, case_names header_error first_ok check_error other_error
    refresh_failed retry_header_error retry_ok retry_failed]:
  assumes live: "\<not> MPESA_MOCK cfg" and creds: "has_credentials cfg"
    and run: "submit cfg e pl tok w = (fl, w')"
  obtains
    err where "String_js tok = Inl err" "trace w' = trace w"
      "fl = Return (res_json 502 [(''success'', JBool False), (''message'', JStr ''STK request failed''),
                                  (''details'', err_details err)])"
  | t d where "String_js tok = Inr t"
      "respond e (trace w) (AxiosPost (stk_url cfg) pl (stk_headers t)) = Resolved d"
      "trace w' = trace w @ [AxiosPost (stk_url cfg) pl (stk_headers t)]" "fl = Next d"
  | t d m terr where "String_js tok = Inr t"
      "respond e (trace w) (AxiosPost (stk_url cfg) pl (stk_headers t)) = Rejected d m"
      "invalid_token d = Inl terr"
      "trace w' = trace w @ [AxiosPost (stk_url cfg) pl (stk_headers t)]" "fl = Throw terr"
  | t d m where "String_js tok = Inr t"
      "respond e (trace w) (AxiosPost (stk_url cfg) pl (stk_headers t)) = Rejected d m"
      "invalid_token d = Inr False"
      "trace w' = trace w @ [AxiosPost (stk_url cfg) pl (stk_headers t)]"
      "fl = Return (res_json 502 [(''success'', JBool False), (''message'', JStr ''STK request failed''),
                                  (''details'', js_or d (JStr m))])"
  | t d m where "String_js tok = Inr t"
      "respond e (trace w) (AxiosPost (stk_url cfg) pl (stk_headers t)) = Rejected d m"
      "invalid_token d = Inr True"
      "\<not> truthy (granted_token (respond e (trace w @ [AxiosPost (stk_url cfg) pl (stk_headers t)]) (token_request cfg)))"
      "trace w' = trace w @ [AxiosPost (stk_url cfg) pl (stk_headers t), token_request cfg]"
      "fl = Return (res_json 502 [(''success'', JBool False),
                      (''message'', JStr ''Unable to refresh access token. Check credentials.'')])"
  | t d m err where "String_js tok = Inr t"
      "respond e (trace w) (AxiosPost (stk_url cfg) pl (stk_headers t)) = Rejected d m"
      "invalid_token d = Inr True"
      "truthy (granted_token (respond e (trace w @ [AxiosPost (stk_url cfg) pl (stk_headers t)]) (token_request cfg)))"
      "String_js (granted_token (respond e (trace w @ [AxiosPost (stk_url cfg) pl (stk_headers t)]) (token_request cfg))) = Inl err"
      "trace w' = trace w @ [AxiosPost (stk_url cfg) pl (stk_headers t), token_request cfg]"
      "fl = Return (res_json 502 [(''success'', JBool False),
                      (''message'', JStr ''STK request failed after token refresh''),
                      (''details'', err_details err)])"
  | t d m t2 d2 where "String_js tok = Inr t"
      "respond e (trace w) (AxiosPost (stk_url cfg) pl (stk_headers t)) = Rejected d m"
      "invalid_token d = Inr True"
      "truthy (granted_token (respond e (trace w @ [AxiosPost (stk_url cfg) pl (stk_headers t)]) (token_request cfg)))"
      "String_js (granted_token (respond e (trace w @ [AxiosPost (stk_url cfg) pl (stk_headers t)]) (token_request cfg))) = Inr t2"
      "respond e (trace w @ [AxiosPost (stk_url cfg) pl (stk_headers t), token_request cfg])
         (AxiosPost (stk_url cfg) pl (stk_headers t2)) = Resolved d2"
      "trace w' = trace w @ [AxiosPost (stk_url cfg) pl (stk_headers t), token_request cfg,
                             AxiosPost (stk_url cfg) pl (stk_headers t2)]"
      "fl = Next d2"
  | t d m t2 d2 m2 where "String_js tok = Inr t"
      "respond e (trace w) (AxiosPost (stk_url cfg) pl (stk_headers t)) = Rejected d m"
      "invalid_token d = Inr True"
      "truthy (granted_token (respond e (trace w @ [AxiosPost (stk_url cfg) pl (stk_headers t)]) (token_request cfg)))"
      "String_js (granted_token (respond e (trace w @ [AxiosPost (stk_url cfg) pl (stk_headers t)]) (token_request cfg))) = Inr t2"
      "respond e (trace w @ [AxiosPost (stk_url cfg) pl (stk_headers t), token_request cfg])
         (AxiosPost (stk_url cfg) pl (stk_headers t2)) = Rejected d2 m2"
      "trace w' = trace w @ [AxiosPost (stk_url cfg) pl (stk_headers t), token_request cfg,
                             AxiosPost (stk_url cfg) pl (stk_headers t2)]"
      "fl = Return (res_json 502 [(''success'', JBool False),
                      (''message'', JStr ''STK request failed after token refresh''),
                      (''details'', js_or d2 (JStr m2))])"
proof (cases "String_js tok")
  case (Inl err)
  then have "err = no_primitive" by (rule String_js_error)
  with Inl run live have "trace w' = trace w"
    "fl = Return (res_json 502 [(''success'', JBool False), (''message'', JStr ''STK request failed''),
                                  (''details'', err_details err)])"
    by (auto simp: submit_def stkRequest_def no_primitive_def console_error_def)
  with Inl show ?thesis by (rule that(1))
next
  case (Inr t)
  define p1 where "p1 = AxiosPost (stk_url cfg) pl (stk_headers t)"
  obtain w1 where s1: "stkRequest cfg e pl tok w =
          ((case respond e (trace w) p1 of Resolved d \<Rightarrow> Inr d | Rejected d m \<Rightarrow> Inl (AxiosError d m)), w1)"
    and t1: "trace w1 = trace w @ [p1]"
    using stkRequest_call [OF Inr, of cfg e pl w] unfolding p1_def by blast
  show ?thesis
  proof (cases "respond e (trace w) p1")
    case (Resolved d)
    with s1 t1 run live have "trace w' = trace w @ [p1]" "fl = Next d"
      by (auto simp: submit_def)
    with Inr Resolved show ?thesis unfolding p1_def by (rule that(2))
  next
    case (Rejected d m)
    show ?thesis
    proof (cases "invalid_token d")
      case (Inl terr)
      with Rejected s1 t1 run live have "trace w' = trace w @ [p1]" "fl = Throw terr"
        by (auto simp: submit_def)
      with Inr Rejected Inl show ?thesis unfolding p1_def by (rule that(3))
    next
      case sig: (Inr b)
      show ?thesis
      proof (cases b)
        case False
        with sig Rejected s1 t1 run live have "trace w' = trace w @ [p1]"
          "fl = Return (res_json 502 [(''success'', JBool False), (''message'', JStr ''STK request failed''),
                                  (''details'', js_or d (JStr m))])"
          by (auto simp: submit_def console_error_def)
        with Inr Rejected sig False show ?thesis unfolding p1_def by (intro that(4)) auto
      next
        case True
        define w1' where "w1' = console_warn
                          [JStr ''Invalid access token detected from M-PESA, attempting to refresh token and retry STK once'']
                          w1"
        have tw1': "trace w1' = trace w @ [p1]" by (simp add: w1'_def console_warn_def t1)
        define tok2 where "tok2 = granted_token (respond e (trace w @ [p1]) (token_request cfg))"
        obtain w2 where g2: "getAccessToken cfg e w1' = (Inr tok2, w2)"
          and t2: "trace w2 = trace w @ [p1, token_request cfg]"
          using getAccessToken_call [OF live creds, of e w1'] tw1' unfolding tok2_def by auto
        have sig': "invalid_token d = Inr True" using sig True by simp
        show ?thesis
        proof (cases "truthy tok2")
          case False
          with sig' Rejected s1 run live g2 t2 have "trace w' = trace w @ [p1, token_request cfg]"
            "fl = Return (res_json 502 [(''success'', JBool False),
                      (''message'', JStr ''Unable to refresh access token. Check credentials.'')])"
            by (auto simp: submit_def w1'_def)
          with Inr Rejected sig' False show ?thesis unfolding p1_def tok2_def by (intro that(5)) auto
        next
          case tr: True
          show ?thesis
          proof (cases "String_js tok2")
            case (Inl err)
            with tr sig' Rejected s1 run live g2 t2 have "trace w' = trace w @ [p1, token_request cfg]"
              "fl = Return (res_json 502 [(''success'', JBool False),
                      (''message'', JStr ''STK request failed after token refresh''),
                      (''details'', err_details err)])"
              by (auto simp: submit_def w1'_def stkRequest_def console_error_def)
            with Inr Rejected sig' tr Inl show ?thesis unfolding p1_def tok2_def by (intro that(6)) auto
          next
            case t2s: (Inr t2')
            define p2 where "p2 = AxiosPost (stk_url cfg) pl (stk_headers t2')"
            obtain w3 where s3: "stkRequest cfg e pl tok2 w2 =
                ((case respond e (trace w2) p2 of Resolved d \<Rightarrow> Inr d | Rejected d m \<Rightarrow> Inl (AxiosError d m)), w3)"
              and t3: "trace w3 = trace w2 @ [p2]"
              using stkRequest_call [OF t2s, of cfg e pl w2] unfolding p2_def by blast
            show ?thesis
            proof (cases "respond e (trace w2) p2")
              case r2: (Resolved d2)
              with tr sig' Rejected s1 run live g2 t2 s3 t3 have "trace w' = trace w @ [p1, token_request cfg, p2]"
                "fl = Next d2"
                by (auto simp: submit_def w1'_def)
              with Inr Rejected sig' tr t2s r2 t2 show ?thesis unfolding p1_def p2_def tok2_def
                by (intro that(7)) auto
            next
              case r2: (Rejected d2 m2)
              with tr sig' Rejected s1 run live g2 t2 s3 t3 have "trace w' = trace w @ [p1, token_request cfg, p2]"
                "fl = Return (res_json 502 [(''success'', JBool False),
                      (''message'', JStr ''STK request failed after token refresh''),
                      (''details'', js_or d2 (JStr m2))])"
                by (auto simp: submit_def w1'_def console_error_def)
              with Inr Rejected sig' tr t2s r2 t2 show ?thesis unfolding p1_def p2_def tok2_def
                by (intro that(8)) auto
            qed
          qed
        qed
      qed
    qed
  qed
qed

lemma trace_log_masked [simp]: "trace (log_masked tok w) = trace w"
  by (simp add: log_masked_def console_log_def split: sum.splits)

lemma pay_run [consumes 1, case_names body_error missing mock no_credentials token_failed
    build_error live]:
  assumes run: "pay cfg e body w = (res, w')"
  obtains
    err where "destructure_body body = Inl err" "res = Inl err" "w' = w"
  | phone amount name where "destructure_body body = Inr (phone, amount, name)"
      "\<not> truthy phone \<or> \<not> truthy amount"
      "res = Inr (res_json 400 [(''success'', JBool False),
                      (''message'', JStr ''Missing phone or amount in request body.'')])"
      "w' = w"
  | phone amount name where "destructure_body body = Inr (phone, amount, name)"
      "truthy phone" "truthy amount" "MPESA_MOCK cfg"
      "res = Inr (res_json 200 [(''success'', JBool True),
                      (''message'', JStr ''STK Push sent to phone. (mock)'')])"
      "trace w' = trace w"
  | phone amount name where "destructure_body body = Inr (phone, amount, name)"
      "truthy phone" "truthy amount" "\<not> MPESA_MOCK cfg" "\<not> has_credentials cfg"
      "res = Inr no_token_response" "trace w' = trace w"
  | phone amount name where "destructure_body body = Inr (phone, amount, name)"
      "truthy phone" "truthy amount" "\<not> MPESA_MOCK cfg" "has_credentials cfg"
      "\<not> truthy (granted_token (respond e (trace w) (token_request cfg)))"
      "res = Inr no_token_response" "trace w' = trace w @ [token_request cfg]"
  | phone amount name err where "destructure_body body = Inr (phone, amount, name)"
      "truthy phone" "truthy amount" "\<not> MPESA_MOCK cfg" "has_credentials cfg"
      "truthy (granted_token (respond e (trace w) (token_request cfg)))"
      "normalizePhone phone = Inl err \<or>
       (\<exists>partyA. normalizePhone phone = Inr partyA \<and> String_js (js_or name (JStr ''customer'')) = Inl err)"
      "res = Inr (res_json 500 [(''success'', JBool False),
                      (''message'', JStr ''Server error while processing payment.'')])"
      "trace w' = trace w @ [token_request cfg]"
  | phone amount name partyA nm fl w2 w3 where "destructure_body body = Inr (phone, amount, name)"
      "truthy phone" "truthy amount" "\<not> MPESA_MOCK cfg" "has_credentials cfg"
      "truthy (granted_token (respond e (trace w) (token_request cfg)))"
      "normalizePhone phone = Inr partyA" "String_js (js_or name (JStr ''customer'')) = Inr nm"
      "trace w2 = trace w @ [token_request cfg]"
      "submit cfg e (payload cfg (timestamp_of (now_iso e (trace w @ [token_request cfg]))) amount partyA nm)
         (granted_token (respond e (trace w) (token_request cfg))) w2 = (fl, w3)"
      "trace w' = trace w3"
      "res = Inr (case fl of
                    Throw err \<Rightarrow> res_json 500 [(''success'', JBool False),
                                    (''message'', JStr ''Server error while processing payment.'')]
                  | Return r \<Rightarrow> r
                  | Next d \<Rightarrow> stk_result d)"
proof (cases "destructure_body body")
  case (Inl err)
  with run have "res = Inl err" "w' = w" by (auto simp: pay_def)
  with Inl show ?thesis by (rule that(1))
next
  case (Inr pan)
  obtain phone amount name where pan: "pan = (phone, amount, name)" by (cases pan) auto
  note body = Inr [unfolded pan]
  show ?thesis
  proof (cases "\<not> truthy phone \<or> \<not> truthy amount")
    case True
    with run body have "res = Inr (res_json 400 [(''success'', JBool False),
                      (''message'', JStr ''Missing phone or amount in request body.'')])" "w' = w"
      by (auto simp: pay_def)
    with body True show ?thesis by (rule that(2))
  next
    case False
    then have ph: "truthy phone" and am: "truthy amount" by auto
    show ?thesis
    proof (cases "MPESA_MOCK cfg")
      case True
      with run body ph am have "res = Inr (res_json 200 [(''success'', JBool True),
                      (''message'', JStr ''STK Push sent to phone. (mock)'')])" "trace w' = trace w"
        by (auto simp: pay_def console_log_def)
      with body ph am True show ?thesis by (rule that(3))
    next
      case live: False
      show ?thesis
      proof (cases "has_credentials cfg")
        case False
        with run body ph am live have "res = Inr no_token_response" "trace w' = trace w"
          by (auto simp: pay_def pay_try_def getAccessToken_no_credentials console_error_def)
        with body ph am live False show ?thesis by (rule that(4))
      next
        case creds: True
        define tok where "tok = granted_token (respond e (trace w) (token_request cfg))"
        obtain w1 where g1: "getAccessToken cfg e w = (Inr tok, w1)"
          and t1: "trace w1 = trace w @ [token_request cfg]"
          using getAccessToken_call [OF live creds, of e w] unfolding tok_def by auto
        show ?thesis
        proof (cases "truthy tok")
          case False
          with run body ph am live g1 t1 have "res = Inr no_token_response"
            "trace w' = trace w @ [token_request cfg]"
            by (auto simp: pay_def pay_try_def)
          with body ph am live creds False show ?thesis unfolding tok_def
            by (intro that(5) [of phone amount name]) auto
        next
          case tr: True
          define w2 where "w2 = log_masked tok w1"
          have t2: "trace w2 = trace w @ [token_request cfg]" by (simp add: w2_def t1)
          show ?thesis
          proof (cases "normalizePhone phone")
            case (Inl err)
            with run body ph am live g1 tr t2 have
              "res = Inr (res_json 500 [(''success'', JBool False),
                      (''message'', JStr ''Server error while processing payment.'')])"
              "trace w' = trace w @ [token_request cfg]"
              by (auto simp: pay_def pay_try_def Let_def w2_def console_error_def)
            with body ph am live creds tr Inl show ?thesis unfolding tok_def
              by (intro that(6) [of phone amount name err]) auto
          next
            case np: (Inr partyA)
            show ?thesis
            proof (cases "String_js (js_or name (JStr ''customer''))")
              case (Inl err)
              with run body ph am live g1 tr t2 np have
                "res = Inr (res_json 500 [(''success'', JBool False),
                      (''message'', JStr ''Server error while processing payment.'')])"
                "trace w' = trace w @ [token_request cfg]"
                by (auto simp: pay_def pay_try_def Let_def w2_def console_error_def)
              with body ph am live creds tr Inl np show ?thesis unfolding tok_def
                by (intro that(6) [of phone amount name err]) auto
            next
              case nm: (Inr nm)
              define pl where "pl = payload cfg (timestamp_of (now_iso e (trace w @ [token_request cfg]))) amount partyA nm"
              obtain fl w3 where sub: "submit cfg e pl tok w2 = (fl, w3)" by (cases "submit cfg e pl tok w2") auto
              with run body ph am live g1 tr t2 np nm have
                r: "res = Inr (case fl of
                    Throw err \<Rightarrow> res_json 500 [(''success'', JBool False),
                                    (''message'', JStr ''Server error while processing payment.'')]
                  | Return r \<Rightarrow> r
                  | Next d \<Rightarrow> stk_result d)" and tw: "trace w' = trace w3"
                by (auto simp: pay_def pay_try_def Let_def w2_def [symmetric] pl_def console_error_def console_log_def t1
                    split: flow.splits)
              from body ph am live creds tr np nm t2 sub tw r show ?thesis
                unfolding tok_def pl_def
                by (intro that(7) [of phone amount name partyA nm w2 fl w3]) auto
            qed
          qed
        qed
      qed
    qed
  qed
qed

lemma stk_post_neq [simp]: "AxiosPost u pl hs \<noteq> token_request cfg"
  by (simp add: token_request_def)

lemma snoc_eq_1: "([a] = h @ [x]) = (h = [] \<and> a = x)"
  by (cases h) auto

lemma snoc_eq_2: "([a, b] = h @ [x]) = (h = [a] \<and> b = x)"
  by (cases h) (auto simp: snoc_eq_1)

lemma snoc_eq_3: "([a, b, c] = h @ [x]) = (h = [a, b] \<and> c = x)"
  by (cases h) (auto simp: snoc_eq_2)

lemma snoc_eq_4: "([a, b, c, d] = h @ [x]) = (h = [a, b, c] \<and> d = x)"
  by (cases h) (auto simp: snoc_eq_3)

lemma snoc_eq_0: "([] = h @ [x]) = False"
  by simp

lemmas snoc_eqs = snoc_eq_1 snoc_eq_2 snoc_eq_3 snoc_eq_4

lemma destructure_truthy:
  "truthy (get_prop_opt body k) \<Longrightarrow>
   destructure_body body = Inr (get_prop_opt body ''phone'', get_prop_opt body ''amount'', get_prop_opt body ''name'')"
  by (cases body) (auto simp: destructure_body_def get_prop_opt_def)

lemma get_prop_payload_Amount: "get_prop (payload cfg ts amount partyA nm) ''Amount'' = Inr amount"
  by (simp add: payload_def)

lemma granted_token_rejected: "granted_token (Rejected d m) = JNull"
  by (simp add: granted_token_def)

lemma submit_with_getAccessToken:
  "submit_with (getAccessToken cfg e) cfg e pl tok w = submit cfg e pl tok w"
  unfolding submit_with_def submit_def by (rule refl)

lemma pay_try_with_getAccessToken:
  "pay_try_with (getAccessToken cfg e) cfg e phone amount name w = pay_try cfg e phone amount name w"
  by (simp add: pay_try_with_def pay_try_def submit_with_getAccessToken
      cong: sum.case_cong prod.case_cong if_cong)

lemma pay_with_getAccessToken: "pay_with (getAccessToken cfg e) cfg e = pay cfg e"
  by (intro ext)
     (simp add: pay_with_def pay_def pay_try_with_getAccessToken
      cong: sum.case_cong prod.case_cong if_cong)

lemma normalizePhone_truthy:
  assumes "truthy p" and "normalizePhone p = Inr partyA"
  shows "\<exists>t. String_js p = Inr t \<and> partyA = JStr (normalizePhone_spec t)"
proof (cases "ToString p")
  case None
  with assms show ?thesis by (simp add: normalizePhone_def String_js_def)
next
  case (Some t)
  with assms normalizePhone_text [OF assms(1) Some] show ?thesis
    by (simp add: String_js_def)
qed

lemma get_prop_payload_phone:
  "get_prop (payload cfg ts amount partyA nm) ''PartyA'' = Inr partyA"
  "get_prop (payload cfg ts amount partyA nm) ''PhoneNumber'' = Inr partyA"
  by (simp_all add: payload_def)

lemma destructure_phone:
  "destructure_body body = Inr (phone, amount, name) \<Longrightarrow> phone = get_prop_opt body ''phone''"
  by (auto simp: destructure_body_def split: if_splits)

section \<open>Concrete runs\<close>

text \<open>The handlers evaluated on the concrete configurations and gateways.\<close>

lemmas eval_defs = pay_def pay_try_def submit_def stkRequest_def getAccessToken_def
  getAccessToken_try_def axios_call_def console_log_def console_warn_def console_error_def
  log_masked_def Let_def destructure_body_def get_prop_opt_def MPESA_MOCK_def toLowerCase_def
  lower_char_def env_val_def normalizePhone_str normalizePhone_spec_def is_space_def
  seven_and_8_digits_def is_digit_def String_js_def js_or_def timestamp_of_def invalid_token_def
  stk_result_def accepted_def err_details_def upper_ascii_def api_token_def

lemmas fixture_defs = w0_def body_10_def expired_body_def clock_two_def
  env_expired_once_def env_refresh_fails_def env_token_down_def env_gateway_down_def
  env_declined_def declined_body_def body_text_amount_def body_zero_amount_def

lemma cfg_live_fields [simp]:
  "CONSUMER_KEY cfg_live = Some ''key''" "CONSUMER_SECRET cfg_live = Some ''secret''"
  "MPESA_MOCK_VAR cfg_live = None"
  by (simp_all add: cfg_live_def)

lemma cfg_mock_fields [simp]: "MPESA_MOCK_VAR cfg_mock = Some ''TRUE''"
  by (simp add: cfg_mock_def)

lemma cfg_unconfigured_fields [simp]:
  "CONSUMER_KEY cfg_unconfigured = Some ''key''" "CONSUMER_SECRET cfg_unconfigured = None"
  "MPESA_MOCK_VAR cfg_unconfigured = None"
  by (simp_all add: cfg_unconfigured_def cfg_live_def)

lemma run_refresh_fails:
  "pay cfg_live env_refresh_fails body_10 w0 =
     (Inr (res_json 502 [(''success'', JBool False),
             (''message'', JStr ''Unable to refresh access token. Check credentials.'')]),
      \<lparr>trace = [token_request cfg_live,
                (post_10 ''token-1-stale''),
                token_request cfg_live],
        console_out = [ConsoleLog [JStr ''Fetched access token successfully''],
          ConsoleLog [JStr ''Access token (masked):'', JStr ''token-...''],
          ConsoleWarn [JStr ''Invalid access token detected from M-PESA, attempting to refresh token and retry STK once''],
          ConsoleError [JStr ''Error fetching token:'', JStr ''Network Error'']]\<rparr>)"
  by (simp add: eval_defs fixture_defs)

lemma run_expired_once:
  "pay cfg_live env_expired_once body_10 w0 =
     (Inr (res_json 200 [(''success'', JBool True), (''message'', JStr ''STK Push sent to phone.'')]),
      \<lparr>trace = [token_request cfg_live,
                (post_10 ''token-1-stale''),
                token_request cfg_live,
                (post_10 ''token-2-fresh'')],
        console_out = [ConsoleLog [JStr ''Fetched access token successfully''],
          ConsoleLog [JStr ''Access token (masked):'', JStr ''token-...''],
          ConsoleWarn [JStr ''Invalid access token detected from M-PESA, attempting to refresh token and retry STK once''],
          ConsoleLog [JStr ''Fetched access token successfully''],
          ConsoleLog [JStr ''STK Push response received'']]\<rparr>)"
  by (simp add: eval_defs fixture_defs)

lemma run_token_down:
  "pay cfg_live env_token_down body_10 w0 =
     (Inr (res_json 500 [(''success'', JBool False),
             (''message'', JStr ''Server not configured to fetch access token. Check environment variables.'')]),
      \<lparr>trace = [token_request cfg_live],
        console_out = [ConsoleError [JStr ''Error fetching token:'', JStr ''Network Error'']]\<rparr>)"
  by (simp add: eval_defs fixture_defs no_token_response_def)

lemma run_gateway_down:
  "pay cfg_live env_gateway_down body_10 w0 =
     (Inr (res_json 502 [(''success'', JBool False), (''message'', JStr ''STK request failed''),
             (''details'', JStr ''Network Error'')]),
      \<lparr>trace = [token_request cfg_live,
                (post_10 ''token-1-stale'')],
        console_out = [ConsoleLog [JStr ''Fetched access token successfully''],
          ConsoleLog [JStr ''Access token (masked):'', JStr ''token-...''],
          ConsoleError [JStr ''STK request error:'', JStr ''Network Error'']]\<rparr>)"
  by (simp add: eval_defs fixture_defs)

lemma run_declined:
  "pay cfg_live env_declined body_10 w0 =
     (Inr (res_json 400 [(''success'', JBool False), (''message'', JStr ''Failed to send STK Push.''),
             (''details'', declined_body)]),
      \<lparr>trace = [token_request cfg_live,
                (post_10 ''token-1-stale'')],
        console_out = [ConsoleLog [JStr ''Fetched access token successfully''],
          ConsoleLog [JStr ''Access token (masked):'', JStr ''token-...''],
          ConsoleLog [JStr ''STK Push response received'']]\<rparr>)"
  by (simp add: eval_defs fixture_defs)

lemma run_text_amount:
  "pay cfg_live env_declined body_text_amount w0 =
     (Inr (res_json 400 [(''success'', JBool False), (''message'', JStr ''Failed to send STK Push.''),
             (''details'', declined_body)]),
      \<lparr>trace = [token_request cfg_live,
                (post_text ''token-1-stale'')],
        console_out = [ConsoleLog [JStr ''Fetched access token successfully''],
          ConsoleLog [JStr ''Access token (masked):'', JStr ''token-...''],
          ConsoleLog [JStr ''STK Push response received'']]\<rparr>)"
  by (simp add: eval_defs fixture_defs)

lemma run_zero_amount:
  "pay cfg_live env_declined body_zero_amount w0 =
     (Inr (res_json 400 [(''success'', JBool False),
             (''message'', JStr ''Missing phone or amount in request body.'')]), w0)"
  by (simp add: eval_defs fixture_defs)

lemma live_not_mock: "\<not> MPESA_MOCK cfg_live"
  by (simp add: MPESA_MOCK_def toLowerCase_def)

lemma mock_is_mock: "MPESA_MOCK cfg_mock"
  by (simp add: MPESA_MOCK_def toLowerCase_def lower_char_def char_of_def bit_Suc_0_iff)

lemma live_has_credentials: "has_credentials cfg_live"
  by (simp add: has_credentials_def env_val_def)

lemma trace_w0: "trace w0 = []"
  by (simp add: w0_def)

lemma body_10_fields:
  "truthy (get_prop_opt body_10 ''phone'')" "truthy (get_prop_opt body_10 ''amount'')"
  by (simp_all add: body_10_def get_prop_opt_def)

lemma invalid_token_expired: "invalid_token expired_body = Inr True"
  by (simp add: invalid_token_def expired_body_def get_prop_opt_def)

lemma unconfigured_not_mock: "\<not> MPESA_MOCK cfg_unconfigured"
  by (simp add: MPESA_MOCK_def toLowerCase_def)

lemma unconfigured_no_credentials: "\<not> has_credentials cfg_unconfigured"
  by (simp add: has_credentials_def env_val_def)

lemma token_at_w0:
  "getAccessToken cfg_live env_expired_once w0 =
     (Inr (JStr ''token-1-stale''),
      w0\<lparr>trace := trace w0 @ [token_request cfg_live],
         console_out := console_out w0 @ [ConsoleLog [JStr ''Fetched access token successfully'']]\<rparr>)"
  by (simp add: getAccessToken_def getAccessToken_try_def axios_call_def console_log_def
      live_not_mock env_val_def env_expired_once_def trace_w0)

lemma token_at_w1:
  "getAccessToken cfg_live env_expired_once w_after_token =
     (Inr (JStr ''token-2-fresh''),
      w_after_token\<lparr>trace := trace w_after_token @ [token_request cfg_live],
         console_out := console_out w_after_token @ [ConsoleLog [JStr ''Fetched access token successfully'']]\<rparr>)"
  by (simp add: getAccessToken_def getAccessToken_try_def axios_call_def console_log_def
      live_not_mock env_val_def env_expired_once_def w_after_token_def)

lemma show_nat_numeral:
  "show_nat (numeral k) =
     (if (numeral k :: nat) < 10 then [digit_char (numeral k)]
      else show_nat (numeral k div 10) @ [digit_char (numeral k mod 10)])"
  by (rule show_nat.simps)

lemma run_no_token:
  "pay cfg_live env_no_token body_10 w0 =
     (Inr (res_json 500 [(''success'', JBool False),
             (''message'', JStr ''Server not configured to fetch access token. Check environment variables.'')]),
      \<lparr>trace = [token_request cfg_live],
        console_out = [ConsoleLog [JStr ''Fetched access token successfully'']]\<rparr>)"
  by (simp add: eval_defs fixture_defs env_no_token_def no_token_response_def)

lemma run_unprintable_error:
  "pay cfg_live env_unprintable_error body_10 w0 =
     (Inr (res_json 500 [(''success'', JBool False),
             (''message'', JStr ''Server error while processing payment.'')]),
      \<lparr>trace = [token_request cfg_live, post_10 ''token-1-stale''],
        console_out = [ConsoleLog [JStr ''Fetched access token successfully''],
          ConsoleLog [JStr ''Access token (masked):'', JStr ''token-...''],
          ConsoleError [JStr ''M-PESA Error:'', JStr ''Cannot convert object to primitive value'']]\<rparr>)"
  by (simp add: eval_defs fixture_defs env_unprintable_error_def unprintable_body_def no_primitive_def)

section \<open>The claims\<close>

subsection \<open>C1: one token refresh, at most one resubmission\<close>

text \<open>
  Claim C1. In a run of \<^verbatim>\<open>POST /api/pay\<close> whose first two outbound calls are \<open>g\<close> (the token
  request) and \<open>p\<close> (the first submission), and where the gateway rejects \<open>p\<close> with body
  \<open>remote\<close>: when \<open>remote\<close> carries the invalid-token signature (error code 404.001.03, or
  a message matching Invalid Access Token without regard to case) the handler makes
  exactly one further token request, and then either stops with 502 because the refresh
  gave no usable token (no resubmission), or resubmits exactly once, with the same URL and
  payload and the refreshed token, and answers with the outcome of the resubmission: the
  response for its body when it resolves, 502 with its details when it is rejected. When
  \<open>remote\<close> does not carry the signature no further call is made at all, so there is no
  second token request. The claim as worded (always exactly one resubmission) fails
  when the refresh yields no token; this is the statement that holds.
\<close>

theorem token_retry_budget:
  assumes run: "pay cfg e body w = (res, w')"
    and calls: "trace w' = trace w @ g # p # rest"
    and rej: "respond e (trace w @ [g]) p = Rejected remote m"
  shows "(invalid_token remote \<noteq> Inr True \<longrightarrow> rest = [])
       \<and> (invalid_token remote = Inr True \<longrightarrow>
            (rest = [token_request cfg]
               \<and> \<not> truthy (granted_token (respond e (trace w @ [g, p]) (token_request cfg)))
               \<and> res = Inr (res_json 502 [(''success'', JBool False),
                               (''message'', JStr ''Unable to refresh access token. Check credentials.'')]))
          \<or> (rest = [token_request cfg]
               \<and> truthy (granted_token (respond e (trace w @ [g, p]) (token_request cfg)))
               \<and> String_js (granted_token (respond e (trace w @ [g, p]) (token_request cfg))) = Inl no_primitive
               \<and> res = Inr (res_json 502 [(''success'', JBool False),
                               (''message'', JStr ''STK request failed after token refresh''),
                               (''details'', err_details no_primitive)]))
          \<or> (\<exists>pl t t2.
                p = AxiosPost (stk_url cfg) pl (stk_headers t)
              \<and> truthy (granted_token (respond e (trace w @ [g, p]) (token_request cfg)))
              \<and> String_js (granted_token (respond e (trace w @ [g, p]) (token_request cfg))) = Inr t2
              \<and> rest = [token_request cfg, AxiosPost (stk_url cfg) pl (stk_headers t2)]
              \<and> res = Inr (case respond e (trace w @ [g, p, token_request cfg])
                                   (AxiosPost (stk_url cfg) pl (stk_headers t2)) of
                             Resolved d2 \<Rightarrow> stk_result d2
                           | Rejected d2 m2 \<Rightarrow>
                               res_json 502 [(''success'', JBool False),
                                 (''message'', JStr ''STK request failed after token refresh''),
                                 (''details'', js_or d2 (JStr m2))])))"
  using run
proof (cases rule: pay_run)
  case (live phone amount name partyA nm fl w2 w3)
  from live(4,5,10) show ?thesis
    by (cases rule: submit_run)
       (use live calls rej in \<open>auto dest: String_js_error\<close>)
qed (use calls in auto)

text \<open>
  An instance of C1: the gateway rejects the first token as invalid, grants a second
  one and accepts the resubmission. The run makes the four calls in order and answers 200.
\<close>

theorem token_retry_budget_witness:
  "trace (snd (pay cfg_live env_expired_once body_10 w0)) =
     trace w0 @ token_request cfg_live # (post_10 ''token-1-stale'') # [token_request cfg_live, post_10 ''token-2-fresh'']
   \<and> respond env_expired_once (trace w0 @ [token_request cfg_live]) (post_10 ''token-1-stale'') =
       Rejected expired_body ''Request failed with status code 404''
   \<and> invalid_token expired_body = Inr True
   \<and> respond env_expired_once (trace w0 @ [token_request cfg_live, post_10 ''token-1-stale'', token_request cfg_live]) (post_10 ''token-2-fresh'') =
       Resolved (JObj [(''ResponseCode'', JStr ''0''),
                       (''CustomerMessage'', JStr ''Success. Request accepted for processing'')])
   \<and> fst (pay cfg_live env_expired_once body_10 w0) =
       Inr (res_json 200 [(''success'', JBool True), (''message'', JStr ''STK Push sent to phone.'')])"
proof -
  have calls: "trace (snd (pay cfg_live env_expired_once body_10 w0)) = trace w0 @ token_request cfg_live # (post_10 ''token-1-stale'') # [token_request cfg_live, post_10 ''token-2-fresh'']"
    by (simp add: run_expired_once trace_w0)
  have rej: "respond env_expired_once (trace w0 @ [token_request cfg_live]) (post_10 ''token-1-stale'') =
       Rejected expired_body ''Request failed with status code 404''"
    by (simp add: env_expired_once_def trace_w0)
  have ok: "respond env_expired_once (trace w0 @ [token_request cfg_live, post_10 ''token-1-stale'', token_request cfg_live]) (post_10 ''token-2-fresh'') =
       Resolved (JObj [(''ResponseCode'', JStr ''0''),
                       (''CustomerMessage'', JStr ''Success. Request accepted for processing'')])"
    by (simp add: env_expired_once_def trace_w0)
  from token_retry_budget [OF surjective_pairing calls rej] invalid_token_expired ok
  have "fst (pay cfg_live env_expired_once body_10 w0) =
       Inr (res_json 200 [(''success'', JBool True), (''message'', JStr ''STK Push sent to phone.'')])"
    by (auto simp: stk_headers_def stk_result_def accepted_def get_prop_opt_def)
  with calls rej ok invalid_token_expired show ?thesis by simp
qed

text \<open>
  Where C1 as worded fails: the first submission is rejected with error code 404.001.03 and
  the token endpoint is down when the token is refreshed. The run makes one refresh and no
  resubmission (one POST in all), and answers 502, which is the outcome of no
  resubmission.
\<close>

theorem refresh_failure_no_resubmission:
  "trace (snd (pay cfg_live env_refresh_fails body_10 w0)) = [token_request cfg_live, post_10 ''token-1-stale'', token_request cfg_live]
   \<and> respond env_refresh_fails [token_request cfg_live] (post_10 ''token-1-stale'') =
       Rejected expired_body ''Request failed with status code 404''
   \<and> invalid_token expired_body = Inr True
   \<and> length (filter is_post (trace (snd (pay cfg_live env_refresh_fails body_10 w0)))) = 1
   \<and> fst (pay cfg_live env_refresh_fails body_10 w0) =
       Inr (res_json 502 [(''success'', JBool False),
              (''message'', JStr ''Unable to refresh access token. Check credentials.'')])"
proof -
  have "respond env_refresh_fails [token_request cfg_live] (post_10 ''token-1-stale'') =
       Rejected expired_body ''Request failed with status code 404''"
    by (simp add: env_refresh_fails_def)
  then show ?thesis by (simp add: run_refresh_fails invalid_token_expired)
qed

subsection \<open>C2: the rules of the phone normalizer\<close>

text \<open>
  Claim C2. The normalizer is a closure of the handler, called once (line 116) on the
  phone of a request that passed the presence check of line 81, a truthy value. On every
  string it returns what the rules of section 4.1 give (\<open>normalizePhone_spec\<close>): white
  space stripped, a leading plus removed, a leading zero replaced by 254, and 254
  prepended to 7 followed by exactly 8 digits; it raises nothing. On every safe integer
  other than 0 the conversion gives the decimal digits and the normalizer returns what
  the rules give for them. On every truthy value that \<^verbatim>\<open>String\<close> converts to a text, it
  returns what the rules give for that text: the closure reads its argument through the
  conversion only. Whenever the handler submits a payload, the phone of the request is
  truthy and converts to a text, and \<^verbatim>\<open>PartyA\<close> and \<^verbatim>\<open>PhoneNumber\<close> of the payload are what
  the rules give for that text. The three examples of the specification normalize to
  254712345678.
\<close>

theorem normalizePhone_rules:
  "normalizePhone (JStr s) = Inr (JStr (normalizePhone_spec s))
   \<and> (safe_integer n \<and> n \<noteq> 0 \<longrightarrow>
        String_js (JNum n) = Inr (show_int n) \<and>
        normalizePhone (JNum n) = Inr (JStr (normalizePhone_spec (show_int n))))
   \<and> (truthy p \<and> String_js p = Inr t \<longrightarrow> normalizePhone p = Inr (JStr (normalizePhone_spec t)))
   \<and> (\<forall>h u pl hs rest.
         pay cfg e body w = (res, w') \<and> trace w' = trace w @ h @ AxiosPost u pl hs # rest \<longrightarrow>
         truthy (get_prop_opt body ''phone'') \<and>
         (\<exists>t. String_js (get_prop_opt body ''phone'') = Inr t \<and>
              get_prop pl ''PartyA'' = Inr (JStr (normalizePhone_spec t)) \<and>
              get_prop pl ''PhoneNumber'' = Inr (JStr (normalizePhone_spec t))))
   \<and> normalizePhone (JStr ''0712345678'') = Inr (JStr ''254712345678'')
   \<and> normalizePhone (JStr ''+254712345678'') = Inr (JStr ''254712345678'')
   \<and> normalizePhone (JStr ''712345678'') = Inr (JStr ''254712345678'')"
proof (intro conjI impI allI)
  show "normalizePhone (JStr s) = Inr (JStr (normalizePhone_spec s))" by (rule normalizePhone_str)
next
  assume "safe_integer n \<and> n \<noteq> 0"
  then show "String_js (JNum n) = Inr (show_int n)" by (simp add: String_js_def)
next
  assume "safe_integer n \<and> n \<noteq> 0"
  then show "normalizePhone (JNum n) = Inr (JStr (normalizePhone_spec (show_int n)))"
    by (simp add: normalizePhone_text)
next
  assume "truthy p \<and> String_js p = Inr t"
  then show "normalizePhone p = Inr (JStr (normalizePhone_spec t))"
    by (auto simp: String_js_def normalizePhone_text split: option.splits)
next
  fix h u pl hs rest
  assume a: "pay cfg e body w = (res, w') \<and> trace w' = trace w @ h @ AxiosPost u pl hs # rest"
  then have run: "pay cfg e body w = (res, w')"
    and calls: "trace w' = trace w @ h @ AxiosPost u pl hs # rest" by simp_all
  have "truthy (get_prop_opt body ''phone'') \<and>
         (\<exists>t. String_js (get_prop_opt body ''phone'') = Inr t \<and>
              get_prop pl ''PartyA'' = Inr (JStr (normalizePhone_spec t)) \<and>
              get_prop pl ''PhoneNumber'' = Inr (JStr (normalizePhone_spec t)))"
    using run
  proof (cases rule: pay_run)
    case (live phone amount name partyA nm fl w2 w3)
    from normalizePhone_truthy [OF live(2,7)] obtain t
      where t: "String_js phone = Inr t" "partyA = JStr (normalizePhone_spec t)" by blast
    have ph: "phone = get_prop_opt body ''phone''" using live(1) by (rule destructure_phone)
    from live(4,5,10) show ?thesis
      by (cases rule: submit_run)
         (use live calls t ph in \<open>auto simp: Cons_eq_append_conv append_eq_Cons_conv get_prop_payload_phone\<close>)
  qed (use calls in \<open>auto simp: Cons_eq_append_conv append_eq_Cons_conv\<close>)
  then show "truthy (get_prop_opt body ''phone'')"
    and "\<exists>t. String_js (get_prop_opt body ''phone'') = Inr t \<and>
              get_prop pl ''PartyA'' = Inr (JStr (normalizePhone_spec t)) \<and>
              get_prop pl ''PhoneNumber'' = Inr (JStr (normalizePhone_spec t))"
    by simp_all
next
  show "normalizePhone (JStr ''0712345678'') = Inr (JStr ''254712345678'')"
    by (simp add: normalizePhone_str normalizePhone_spec_def is_space_def)
  show "normalizePhone (JStr ''+254712345678'') = Inr (JStr ''254712345678'')"
    by (simp add: normalizePhone_str normalizePhone_spec_def is_space_def)
  show "normalizePhone (JStr ''712345678'') = Inr (JStr ''254712345678'')"
    by (simp add: normalizePhone_str normalizePhone_spec_def is_space_def seven_and_8_digits_def is_digit_def)
qed

text \<open>
  Instances of C2: a phone given as the number 712345678; a phone given as an array,
  which converts to its elements joined by a comma; and the request of section 8 of the
  specification, whose submitted payload carries 254712345678.
\<close>

theorem normalizePhone_rules_witness:
  "safe_integer 712345678
   \<and> String_js (JNum 712345678) = Inr ''712345678''
   \<and> normalizePhone (JNum 712345678) = Inr (JStr ''254712345678'')
   \<and> truthy (JArr [JStr ''07 12'', JNum 345678])
   \<and> String_js (JArr [JStr ''07 12'', JNum 345678]) = Inr ''07 12,345678''
   \<and> normalizePhone (JArr [JStr ''07 12'', JNum 345678]) = Inr (JStr ''254712,345678'')
   \<and> trace (snd (pay cfg_live env_declined body_10 w0)) =
       trace w0 @ [token_request cfg_live] @ post_10 ''token-1-stale'' # []
   \<and> String_js (get_prop_opt body_10 ''phone'') = Inr ''0712345678''
   \<and> get_prop payload_10 ''PartyA'' = Inr (JStr ''254712345678'')"
proof -
  have safe: "safe_integer 712345678" by (simp add: safe_integer_def)
  have digits: "show_int 712345678 = ''712345678''"
    by (simp add: show_int_def show_nat_numeral digit_char_def)
  have spec: "normalizePhone_spec ''712345678'' = ''254712345678''"
    by (simp add: normalizePhone_spec_def is_space_def seven_and_8_digits_def is_digit_def)
  note num = normalizePhone_rules [where n = 712345678, THEN conjunct2, THEN conjunct1, rule_format]
  from num safe digits spec
  have n1: "String_js (JNum 712345678) = Inr ''712345678''"
    and n2: "normalizePhone (JNum 712345678) = Inr (JStr ''254712345678'')"
    by simp_all
  have a1: "truthy (JArr [JStr ''07 12'', JNum 345678])" by simp
  have a2: "String_js (JArr [JStr ''07 12'', JNum 345678]) = Inr ''07 12,345678''"
    by (simp add: String_js_def show_int_def show_nat_numeral digit_char_def)
  have spec2: "normalizePhone_spec ''07 12,345678'' = ''254712,345678''"
    by (simp add: normalizePhone_spec_def is_space_def seven_and_8_digits_def)
  note gen = normalizePhone_rules [where p = "JArr [JStr ''07 12'', JNum 345678]" and t = "''07 12,345678''",
      THEN conjunct2, THEN conjunct2, THEN conjunct1, rule_format]
  from gen a1 a2 spec2
  have a3: "normalizePhone (JArr [JStr ''07 12'', JNum 345678]) = Inr (JStr ''254712,345678'')"
    by simp
  have calls: "trace (snd (pay cfg_live env_declined body_10 w0)) =
       trace w0 @ [token_request cfg_live] @ post_10 ''token-1-stale'' # []"
    by (simp add: run_declined trace_w0)
  have ph: "String_js (get_prop_opt body_10 ''phone'') = Inr ''0712345678''"
    by (simp add: body_10_def get_prop_opt_def String_js_def)
  have spec3: "normalizePhone_spec ''0712345678'' = ''254712345678''"
    by (simp add: normalizePhone_spec_def is_space_def seven_and_8_digits_def)
  note sent = normalizePhone_rules [where cfg = cfg_live and e = env_declined and body = body_10 and w = w0,
      THEN conjunct2, THEN conjunct2, THEN conjunct2, THEN conjunct1, rule_format,
      of _ _ "[token_request cfg_live]" "stk_url cfg_live" payload_10 "stk_headers ''token-1-stale''" "[]"]
  from sent [OF conjI [OF surjective_pairing calls]] ph spec3
  have p1: "get_prop payload_10 ''PartyA'' = Inr (JStr ''254712345678'')"
    by auto
  from safe n1 n2 a1 a2 a3 calls ph p1 show ?thesis by blast
qed

subsection \<open>C3: status of configuration and gateway failures\<close>

text \<open>
  Claim C3. For a request in non-mock mode with phone and amount passing the presence
  check: when a credential is missing the answer is 500 and no call is made; when the
  first token request yields no token, because it is rejected (in transport or with a
  non-2xx status) or because its 2xx body carries no \<^verbatim>\<open>access_token\<close>, the answer is the
  same 500, without details, after that one call; when the token request of a refresh
  yields no token the answer is 502 without details. A rejected submission is answered
  502 with the details of the error (its body, or its message when there is no body):
  the resubmission in every case, the first submission when the signature test on its
  body gives false. When that test raises, on a body whose \<^verbatim>\<open>errorMessage\<close> cannot be
  converted to a string, the answer is the 500 of the outer handler, without details. A
  first submission that is the last call of a run never carries the signature. The claim
  as worded (every failure a 502 with details, the token fetch included) fails for the
  token fetch; this is the statement that holds.
\<close>

theorem payment_failure_status:
  assumes run: "pay cfg e body w = (res, w')" and live: "\<not> MPESA_MOCK cfg"
    and phone: "truthy (get_prop_opt body ''phone'')" and amount: "truthy (get_prop_opt body ''amount'')"
  shows "(\<not> has_credentials cfg \<longrightarrow>
            trace w' = trace w \<and>
            res = Inr (res_json 500 [(''success'', JBool False),
                    (''message'', JStr ''Server not configured to fetch access token. Check environment variables.'')]))
       \<and> (has_credentials cfg \<and>
           \<not> truthy (granted_token (respond e (trace w) (token_request cfg))) \<longrightarrow>
            trace w' = trace w @ [token_request cfg] \<and>
            res = Inr (res_json 500 [(''success'', JBool False),
                    (''message'', JStr ''Server not configured to fetch access token. Check environment variables.'')]))
       \<and> (\<forall>d m. respond e (trace w) (token_request cfg) = Rejected d m \<longrightarrow>
            res = Inr (res_json 500 [(''success'', JBool False),
                    (''message'', JStr ''Server not configured to fetch access token. Check environment variables.'')]))
       \<and> (\<forall>h. h \<noteq> [] \<and> trace w' = trace w @ h @ [token_request cfg] \<and>
                 \<not> truthy (granted_token (respond e (trace w @ h) (token_request cfg))) \<longrightarrow>
            res = Inr (res_json 502 [(''success'', JBool False),
                    (''message'', JStr ''Unable to refresh access token. Check credentials.'')]))
       \<and> (\<forall>h u pl hs d m. trace w' = trace w @ h @ [AxiosPost u pl hs] \<and>
                 respond e (trace w @ h) (AxiosPost u pl hs) = Rejected d m \<longrightarrow>
            (if h = [token_request cfg] then
               (case invalid_token d of
                  Inl terr \<Rightarrow>
                    res = Inr (res_json 500 [(''success'', JBool False),
                            (''message'', JStr ''Server error while processing payment.'')])
                | Inr signature \<Rightarrow>
                    \<not> signature \<and>
                    res = Inr (res_json 502 [(''success'', JBool False),
                            (''message'', JStr ''STK request failed''),
                            (''details'', js_or d (JStr m))]))
             else
               res = Inr (res_json 502 [(''success'', JBool False),
                       (''message'', JStr ''STK request failed after token refresh''),
                       (''details'', js_or d (JStr m))])))"
  using run
proof (cases rule: pay_run)
  case (live phone amount name partyA nm fl w2 w3)
  from live(4,5,10) show ?thesis
    by (cases rule: submit_run)
       (use live in \<open>auto simp: snoc_eqs granted_token_rejected\<close>)
qed (use live phone amount destructure_truthy [OF phone] in
      \<open>auto simp: snoc_eqs no_token_response_def granted_token_rejected\<close>)

text \<open>
  Instances of C3: the token is granted and the submission fails in transport, the answer
  is 502 with the error's message as details; the submission is rejected with a body on
  which the signature test raises, the answer is 500; the token endpoint answers 2xx
  without a token, the answer is 500.
\<close>

theorem payment_failure_status_witness:
  "\<not> MPESA_MOCK cfg_live \<and> has_credentials cfg_live
   \<and> truthy (get_prop_opt body_10 ''phone'') \<and> truthy (get_prop_opt body_10 ''amount'')
   \<and> trace (snd (pay cfg_live env_gateway_down body_10 w0)) =
       trace w0 @ [token_request cfg_live] @ [post_10 ''token-1-stale'']
   \<and> respond env_gateway_down (trace w0 @ [token_request cfg_live]) (post_10 ''token-1-stale'') =
       Rejected JUndefined ''Network Error''
   \<and> fst (pay cfg_live env_gateway_down body_10 w0) =
       Inr (res_json 502 [(''success'', JBool False), (''message'', JStr ''STK request failed''),
              (''details'', JStr ''Network Error'')])
   \<and> trace (snd (pay cfg_live env_unprintable_error body_10 w0)) =
       trace w0 @ [token_request cfg_live] @ [post_10 ''token-1-stale'']
   \<and> respond env_unprintable_error (trace w0 @ [token_request cfg_live]) (post_10 ''token-1-stale'') =
       Rejected unprintable_body ''Request failed with status code 500''
   \<and> invalid_token unprintable_body = Inl no_primitive
   \<and> fst (pay cfg_live env_unprintable_error body_10 w0) =
       Inr (res_json 500 [(''success'', JBool False),
              (''message'', JStr ''Server error while processing payment.'')])
   \<and> respond env_no_token (trace w0) (token_request cfg_live) = Resolved (JObj [(''expires_in'', JStr ''3599'')])
   \<and> granted_token (Resolved (JObj [(''expires_in'', JStr ''3599'')])) = JUndefined
   \<and> fst (pay cfg_live env_no_token body_10 w0) =
       Inr (res_json 500 [(''success'', JBool False),
              (''message'', JStr ''Server not configured to fetch access token. Check environment variables.'')])"
proof -
  have calls: "trace (snd (pay cfg_live env_gateway_down body_10 w0)) =
       trace w0 @ [token_request cfg_live] @ [post_10 ''token-1-stale'']"
    by (simp add: run_gateway_down trace_w0)
  have rej: "respond env_gateway_down (trace w0 @ [token_request cfg_live]) (post_10 ''token-1-stale'') =
       Rejected JUndefined ''Network Error''"
    by (simp add: env_gateway_down_def)
  note down = payment_failure_status [where cfg = cfg_live and e = env_gateway_down and body = body_10
      and w = w0, OF surjective_pairing live_not_mock body_10_fields]
  note down_post = down [THEN conjunct2, THEN conjunct2, THEN conjunct2, THEN conjunct2, rule_format,
      of "[token_request cfg_live]" "stk_url cfg_live" payload_10 "stk_headers ''token-1-stale''"
        JUndefined "''Network Error''"]
  from down_post calls rej
  have r1: "fst (pay cfg_live env_gateway_down body_10 w0) =
       Inr (res_json 502 [(''success'', JBool False), (''message'', JStr ''STK request failed''),
              (''details'', JStr ''Network Error'')])"
    by (simp add: js_or_def)
  have calls2: "trace (snd (pay cfg_live env_unprintable_error body_10 w0)) =
       trace w0 @ [token_request cfg_live] @ [post_10 ''token-1-stale'']"
    by (simp add: run_unprintable_error trace_w0)
  have rej2: "respond env_unprintable_error (trace w0 @ [token_request cfg_live]) (post_10 ''token-1-stale'') =
       Rejected unprintable_body ''Request failed with status code 500''"
    by (simp add: env_unprintable_error_def)
  have sig2: "invalid_token unprintable_body = Inl no_primitive"
    by (simp add: invalid_token_def unprintable_body_def get_prop_opt_def js_or_def String_js_def)
  note odd = payment_failure_status [where cfg = cfg_live and e = env_unprintable_error and body = body_10
      and w = w0, OF surjective_pairing live_not_mock body_10_fields]
  note odd_post = odd [THEN conjunct2, THEN conjunct2, THEN conjunct2, THEN conjunct2, rule_format,
      of "[token_request cfg_live]" "stk_url cfg_live" payload_10 "stk_headers ''token-1-stale''"
        unprintable_body "''Request failed with status code 500''"]
  from odd_post calls2 rej2 sig2
  have r2: "fst (pay cfg_live env_unprintable_error body_10 w0) =
       Inr (res_json 500 [(''success'', JBool False),
              (''message'', JStr ''Server error while processing payment.'')])"
    by simp
  have res3: "respond env_no_token (trace w0) (token_request cfg_live) = Resolved (JObj [(''expires_in'', JStr ''3599'')])"
    by (simp add: env_no_token_def)
  have tok3: "granted_token (Resolved (JObj [(''expires_in'', JStr ''3599'')])) = JUndefined"
    by (simp add: granted_token_def)
  note none = payment_failure_status [where cfg = cfg_live and e = env_no_token and body = body_10
      and w = w0, OF surjective_pairing live_not_mock body_10_fields]
  from none [THEN conjunct2, THEN conjunct1] live_has_credentials res3 tok3
  have r3: "fst (pay cfg_live env_no_token body_10 w0) =
       Inr (res_json 500 [(''success'', JBool False),
              (''message'', JStr ''Server not configured to fetch access token. Check environment variables.'')])"
    by simp
  from calls rej r1 calls2 rej2 sig2 r2 res3 tok3 r3 live_not_mock live_has_credentials body_10_fields
  show ?thesis by blast
qed

text \<open>
  Where C3 as worded fails: credentials are configured and the token request fails in
  transport. The answer is 500 with no details field, not 502.
\<close>

theorem token_transport_failure_is_500:
  "\<not> MPESA_MOCK cfg_live \<and> has_credentials cfg_live
   \<and> truthy (get_prop_opt body_10 ''phone'') \<and> truthy (get_prop_opt body_10 ''amount'')
   \<and> respond env_token_down (trace w0) (token_request cfg_live) = Rejected JUndefined ''Network Error''
   \<and> trace (snd (pay cfg_live env_token_down body_10 w0)) = [token_request cfg_live]
   \<and> fst (pay cfg_live env_token_down body_10 w0) =
       Inr (res_json 500 [(''success'', JBool False),
              (''message'', JStr ''Server not configured to fetch access token. Check environment variables.'')])"
proof -
  have "respond env_token_down (trace w0) (token_request cfg_live) = Rejected JUndefined ''Network Error''"
    by (simp add: env_token_down_def)
  then show ?thesis
    by (simp add: run_token_down live_not_mock live_has_credentials body_10_fields)
qed

subsection \<open>C4: the presence check and the amount forwarded\<close>

text \<open>
  Claim C4. The handler answers with the 400 response "Missing phone or amount in request
  body." exactly when phone or amount is falsy (absent, null, false, 0 or the empty
  string). Every submission it sends carries, as \<^verbatim>\<open>Amount\<close>, the amount of the request as it
  was given, and a submission is sent only for a truthy amount. Whatever the type or range
  of a truthy amount, once a token is granted and phone and name convert to text, the
  first submission is sent with that amount. The claim as worded (400 only when a field is
  missing, amount 0 forwarded) fails at amount 0; this is the statement that holds.
\<close>

theorem presence_check:
  assumes run: "pay cfg e body w = (res, w')"
    and body: "destructure_body body = Inr (phone, amount, name)"
  shows "((res = Inr (res_json 400 [(''success'', JBool False),
                     (''message'', JStr ''Missing phone or amount in request body.'')]))
          = (\<not> truthy phone \<or> \<not> truthy amount))
       \<and> (\<forall>h u pl hs rest. trace w' = trace w @ h @ AxiosPost u pl hs # rest \<longrightarrow>
            truthy amount \<and> get_prop pl ''Amount'' = Inr amount)
       \<and> (\<forall>t partyA nm.
             \<not> MPESA_MOCK cfg \<and> has_credentials cfg \<and> truthy phone \<and> truthy amount \<and>
             truthy (granted_token (respond e (trace w) (token_request cfg))) \<and>
             String_js (granted_token (respond e (trace w) (token_request cfg))) = Inr t \<and>
             normalizePhone phone = Inr partyA \<and>
             String_js (js_or name (JStr ''customer'')) = Inr nm \<longrightarrow>
             (\<exists>rest. trace w' = trace w @ token_request cfg #
                  AxiosPost (stk_url cfg)
                    (payload cfg (timestamp_of (now_iso e (trace w @ [token_request cfg]))) amount partyA nm)
                    (stk_headers t) # rest))"
  using run
proof (cases rule: pay_run)
  case (live phone amount name partyA nm fl w2 w3)
  from live(4,5,10) show ?thesis
    by (cases rule: submit_run)
       (use live body in \<open>auto simp: Cons_eq_append_conv get_prop_payload_Amount stk_result_def\<close>)
qed (use body in \<open>auto simp: no_token_response_def Cons_eq_append_conv\<close>)

text \<open>
  An instance of C4: the amount is the text "ten"; the submission is sent with
  \<^verbatim>\<open>Amount\<close> "ten", and the answer is not the missing-field response.
\<close>

theorem presence_check_witness:
  "destructure_body body_text_amount = Inr (JStr ''0712345678'', JStr ''ten'', JUndefined)
   \<and> trace (snd (pay cfg_live env_declined body_text_amount w0)) = trace w0 @ [token_request cfg_live] @ [post_text ''token-1-stale'']
   \<and> get_prop payload_text ''Amount'' = Inr (JStr ''ten'')
   \<and> fst (pay cfg_live env_declined body_text_amount w0) \<noteq>
       Inr (res_json 400 [(''success'', JBool False),
              (''message'', JStr ''Missing phone or amount in request body.'')])"
proof -
  have body: "destructure_body body_text_amount = Inr (JStr ''0712345678'', JStr ''ten'', JUndefined)"
    by (simp add: destructure_body_def body_text_amount_def get_prop_opt_def)
  have calls: "trace (snd (pay cfg_live env_declined body_text_amount w0)) = trace w0 @ [token_request cfg_live] @ [post_text ''token-1-stale'']"
    by (simp add: run_text_amount trace_w0)
  note all = presence_check [of cfg_live env_declined body_text_amount w0, OF surjective_pairing body]
  note sent = all [THEN conjunct2, THEN conjunct1, rule_format,
      of "[token_request cfg_live]" "stk_url cfg_live" payload_text "stk_headers ''token-1-stale''" "[]"]
  from sent calls have amount: "get_prop payload_text ''Amount'' = Inr (JStr ''ten'')"
    by simp
  from all [THEN conjunct1]
  have "fst (pay cfg_live env_declined body_text_amount w0) \<noteq>
       Inr (res_json 400 [(''success'', JBool False),
              (''message'', JStr ''Missing phone or amount in request body.'')])"
    by simp
  with body calls amount show ?thesis by simp
qed

text \<open>
  Where C4 as worded fails: the body holds phone and the amount 0. The amount is
  present, the answer is the 400 missing-field response, and nothing is sent to the
  gateway.
\<close>

theorem zero_amount_rejected:
  "get_prop body_zero_amount ''amount'' = Inr (JNum 0)
   \<and> truthy (get_prop_opt body_zero_amount ''phone'')
   \<and> pay cfg_live env_declined body_zero_amount w0 =
       (Inr (res_json 400 [(''success'', JBool False),
               (''message'', JStr ''Missing phone or amount in request body.'')]), w0)"
proof -
  have "get_prop body_zero_amount ''amount'' = Inr (JNum 0)"
    and "truthy (get_prop_opt body_zero_amount ''phone'')"
    by (simp_all add: body_zero_amount_def get_prop_opt_def)
  then show ?thesis by (simp add: run_zero_amount)
qed

subsection \<open>C5: the token provider\<close>

text \<open>
  Claim C5. \<^verbatim>\<open>getAccessToken\<close> always returns a value and never throws. In mock mode it
  returns the placeholder token and leaves the world as it was (no call). Outside mock
  mode, with a credential missing it returns null without a call; when its request is
  rejected, with or without a response, it makes the one call, logs a description of
  the error and returns null; when its request resolves with a body whose
  \<^verbatim>\<open>access_token\<close> is a string it returns that string.
\<close>

theorem getAccessToken_contract:
  "(\<exists>v w1. getAccessToken cfg e w = (Inr v, w1))
   \<and> (MPESA_MOCK cfg \<longrightarrow> getAccessToken cfg e w = (Inr (JStr ''mock-access-token''), w))
   \<and> (\<not> MPESA_MOCK cfg \<and> \<not> has_credentials cfg \<longrightarrow>
        (\<exists>w1. getAccessToken cfg e w = (Inr JNull, w1) \<and> trace w1 = trace w))
   \<and> (\<not> MPESA_MOCK cfg \<and> has_credentials cfg \<and>
        respond e (trace w) (token_request cfg) = Rejected d m \<longrightarrow>
        getAccessToken cfg e w =
          (Inr JNull,
           w\<lparr>trace := trace w @ [token_request cfg],
             console_out := console_out w @
               [ConsoleError [JStr ''Error fetching token:'',
                  js_or (get_prop_opt d ''error_description'') (js_or d (JStr m))]]\<rparr>))
   \<and> (\<not> MPESA_MOCK cfg \<and> has_credentials cfg \<and>
        respond e (trace w) (token_request cfg) = Resolved d \<and>
        get_prop d ''access_token'' = Inr (JStr t) \<longrightarrow>
        getAccessToken cfg e w =
          (Inr (JStr t),
           w\<lparr>trace := trace w @ [token_request cfg],
             console_out := console_out w @ [ConsoleLog [JStr ''Fetched access token successfully'']]\<rparr>))"
proof (intro conjI impI)
  show "\<exists>v w1. getAccessToken cfg e w = (Inr v, w1)" by (rule getAccessToken_total)
next
  assume "MPESA_MOCK cfg"
  then show "getAccessToken cfg e w = (Inr (JStr ''mock-access-token''), w)"
    by (rule getAccessToken_mock)
next
  assume "\<not> MPESA_MOCK cfg \<and> \<not> has_credentials cfg"
  then show "\<exists>w1. getAccessToken cfg e w = (Inr JNull, w1) \<and> trace w1 = trace w"
    by (simp add: getAccessToken_no_credentials console_error_def)
next
  assume "\<not> MPESA_MOCK cfg \<and> has_credentials cfg \<and>
        respond e (trace w) (token_request cfg) = Rejected d m"
  then show "getAccessToken cfg e w =
          (Inr JNull,
           w\<lparr>trace := trace w @ [token_request cfg],
             console_out := console_out w @
               [ConsoleError [JStr ''Error fetching token:'',
                  js_or (get_prop_opt d ''error_description'') (js_or d (JStr m))]]\<rparr>)"
    by (simp add: getAccessToken_def getAccessToken_try_def axios_call_def has_credentials_def
        console_error_def)
next
  assume "\<not> MPESA_MOCK cfg \<and> has_credentials cfg \<and>
        respond e (trace w) (token_request cfg) = Resolved d \<and>
        get_prop d ''access_token'' = Inr (JStr t)"
  then show "getAccessToken cfg e w =
          (Inr (JStr t),
           w\<lparr>trace := trace w @ [token_request cfg],
             console_out := console_out w @ [ConsoleLog [JStr ''Fetched access token successfully'']]\<rparr>)"
    by (simp add: getAccessToken_def getAccessToken_try_def axios_call_def has_credentials_def
        console_log_def)
qed

text \<open>
  Instances of C5: mock mode; a missing secret; a token request that fails in transport;
  a token request that resolves with a token.
\<close>

theorem getAccessToken_contract_witness:
  "MPESA_MOCK cfg_mock
   \<and> getAccessToken cfg_mock env_token_down w0 = (Inr (JStr ''mock-access-token''), w0)
   \<and> \<not> MPESA_MOCK cfg_unconfigured
   \<and> \<not> has_credentials cfg_unconfigured
   \<and> fst (getAccessToken cfg_unconfigured env_token_down w0) = Inr JNull
   \<and> trace (snd (getAccessToken cfg_unconfigured env_token_down w0)) = trace w0
   \<and> \<not> MPESA_MOCK cfg_live
   \<and> has_credentials cfg_live
   \<and> respond env_token_down (trace w0) (token_request cfg_live) = Rejected JUndefined ''Network Error''
   \<and> getAccessToken cfg_live env_token_down w0 =
       (Inr JNull,
        w0\<lparr>trace := trace w0 @ [token_request cfg_live],
           console_out := console_out w0 @
             [ConsoleError [JStr ''Error fetching token:'', JStr ''Network Error'']]\<rparr>)
   \<and> respond env_gateway_down (trace w0) (token_request cfg_live) = Resolved (JObj [(''access_token'', JStr ''token-1-stale'')])
   \<and> getAccessToken cfg_live env_gateway_down w0 =
       (Inr (JStr ''token-1-stale''),
        w0\<lparr>trace := trace w0 @ [token_request cfg_live],
           console_out := console_out w0 @ [ConsoleLog [JStr ''Fetched access token successfully'']]\<rparr>)"
proof -
  have down: "respond env_token_down (trace w0) (token_request cfg_live) = Rejected JUndefined ''Network Error''"
    by (simp add: env_token_down_def)
  have up: "respond env_gateway_down (trace w0) (token_request cfg_live) = Resolved (JObj [(''access_token'', JStr ''token-1-stale'')])"
    by (simp add: env_gateway_down_def)
  have tok: "get_prop (JObj [(''access_token'', JStr ''token-1-stale'')]) ''access_token'' = Inr (JStr ''token-1-stale'')"
    by simp
  note mock = getAccessToken_contract [where cfg = cfg_mock and e = env_token_down and w = w0, THEN conjunct2, THEN conjunct1, rule_format,
      OF mock_is_mock]
  note none = getAccessToken_contract [where cfg = cfg_unconfigured and e = env_token_down and w = w0, THEN conjunct2, THEN conjunct2,
      THEN conjunct1, rule_format, OF conjI [OF unconfigured_not_mock unconfigured_no_credentials]]
  note rejected = getAccessToken_contract [where cfg = cfg_live and e = env_token_down and w = w0
        and d = JUndefined and m = "''Network Error''",
      THEN conjunct2, THEN conjunct2, THEN conjunct2, THEN conjunct1, rule_format,
      OF conjI [OF live_not_mock conjI [OF live_has_credentials down]]]
  note resolved = getAccessToken_contract [where cfg = cfg_live and e = env_gateway_down and w = w0
        and d = "JObj [(''access_token'', JStr ''token-1-stale'')]" and t = "''token-1-stale''",
      THEN conjunct2, THEN conjunct2, THEN conjunct2, THEN conjunct2, rule_format,
      OF conjI [OF live_not_mock conjI [OF live_has_credentials conjI [OF up tok]]]]
  from none have "fst (getAccessToken cfg_unconfigured env_token_down w0) = Inr JNull"
    and "trace (snd (getAccessToken cfg_unconfigured env_token_down w0)) = trace w0"
    by auto
  with mock rejected resolved down up mock_is_mock unconfigured_not_mock unconfigured_no_credentials
    live_not_mock live_has_credentials
  show ?thesis by (simp add: js_or_def get_prop_opt_def)
qed

subsection \<open>C6: the masked token\<close>

text \<open>
  Claim C6. When \<^verbatim>\<open>getAccessToken\<close> returns the strings \<open>t1\<close> and \<open>t2\<close> in two worlds and
  the two agree on their first 6 characters, \<^verbatim>\<open>GET /api/token\<close> sends the same response in
  both; for a non-empty token it is the 200 response whose token field is the first 6
  characters followed by three dots, so nothing of the token past its sixth character
  is in the response.
\<close>

theorem token_endpoint_masks:
  assumes "getAccessToken cfg e1 w1 = (Inr (JStr t1), w1')"
    and "getAccessToken cfg e2 w2 = (Inr (JStr t2), w2')"
    and "take 6 t1 = take 6 t2"
  shows "fst (api_token cfg e1 w1) = fst (api_token cfg e2 w2)
       \<and> (t1 \<noteq> [] \<longrightarrow>
            fst (api_token cfg e1 w1) =
              res_json 200
                [(''success'', JBool True),
                 (''message'', JStr (if MPESA_MOCK cfg then ''Fetched access token (mock)''
                                     else ''Fetched access token'')),
                 (''token'', JStr (take 6 t1 @ ''...''))])"
proof (cases "MPESA_MOCK cfg")
  case True
  with assms(1) have "t1 = ''mock-access-token''" by (simp add: getAccessToken_mock)
  with True show ?thesis by (simp add: api_token_def)
next
  case False
  have e: "(t1 = []) = (t2 = [])" using assms(3) by (cases t1; cases t2) auto
  with False assms show ?thesis by (auto simp: api_token_def)
qed

text \<open>
  An instance of C6: two different tokens that begin with the same six characters give the same
  response, with the token field \<^verbatim>\<open>token-...\<close>.
\<close>

theorem token_endpoint_masks_witness:
  "fst (getAccessToken cfg_live env_expired_once w0) = Inr (JStr ''token-1-stale'')
   \<and> fst (getAccessToken cfg_live env_expired_once w_after_token) = Inr (JStr ''token-2-fresh'')
   \<and> take 6 ''token-1-stale'' = take 6 ''token-2-fresh''
   \<and> fst (api_token cfg_live env_expired_once w0) = fst (api_token cfg_live env_expired_once w_after_token)
   \<and> fst (api_token cfg_live env_expired_once w0) =
       res_json 200 [(''success'', JBool True), (''message'', JStr ''Fetched access token''),
                     (''token'', JStr ''token-...'')]"
proof -
  have six: "take 6 ''token-1-stale'' = take 6 ''token-2-fresh''" by simp
  note both = token_endpoint_masks [OF token_at_w0 token_at_w1 six]
  from both have same:
    "fst (api_token cfg_live env_expired_once w0) = fst (api_token cfg_live env_expired_once w_after_token)"
    by (rule conjunct1)
  from both [THEN conjunct2] live_not_mock
  have masked: "fst (api_token cfg_live env_expired_once w0) =
       res_json 200 [(''success'', JBool True), (''message'', JStr ''Fetched access token''),
                     (''token'', JStr ''token-...'')]"
    by simp
  have "fst (getAccessToken cfg_live env_expired_once w0) = Inr (JStr ''token-1-stale'')"
    and "fst (getAccessToken cfg_live env_expired_once w_after_token) = Inr (JStr ''token-2-fresh'')"
    by (simp_all add: token_at_w0 token_at_w1)
  with same masked six show ?thesis by blast
qed

subsection \<open>C7: the response code of the gateway\<close>



subsection \<open>C8: the mock short-circuit\<close>

text \<open>
  Claim C8. In mock mode, a request whose phone and amount pass the presence check (both
  truthy) is answered 200 with success true; the run makes no outbound call and writes
  one line to the console, that of the short-circuit; and it is the same run whatever
  the token provider is, so that token acquisition is not reached. The handler with
  its provider as a parameter is the handler of the source at \<open>getAccessToken\<close>. The claim as
  worded (phone and amount present) fails for a present value that is falsy; this is the
  statement that holds.
\<close>

theorem mock_short_circuit:
  assumes "MPESA_MOCK cfg"
    and "truthy (get_prop_opt body ''phone'')" and "truthy (get_prop_opt body ''amount'')"
  shows "pay_with (getAccessToken cfg e) cfg e = pay cfg e
       \<and> (\<exists>w'. pay cfg e body w =
             (Inr (res_json 200 [(''success'', JBool True),
                     (''message'', JStr ''STK Push sent to phone. (mock)'')]), w')
           \<and> trace w' = trace w
           \<and> console_out w' = console_out w @
               [ConsoleLog [JStr ''MPESA_MOCK enabled - returning simulated STK success (no external call)'']]
           \<and> (\<forall>tp. pay_with tp cfg e body w =
                 (Inr (res_json 200 [(''success'', JBool True),
                         (''message'', JStr ''STK Push sent to phone. (mock)'')]), w')))"
  using assms destructure_truthy [OF assms(2)]
  by (simp add: pay_with_getAccessToken) (simp add: pay_def pay_with_def console_log_def)

text \<open>
  An instance of C8: the request of section 8 of the specification in mock mode, with a
  gateway that is down, and with a token provider that raises and records a call in place
  of \<open>getAccessToken\<close>: the answer and the empty trace are the same.
\<close>

theorem mock_short_circuit_witness:
  "MPESA_MOCK cfg_mock
   \<and> truthy (get_prop_opt body_10 ''phone'') \<and> truthy (get_prop_opt body_10 ''amount'')
   \<and> fst (pay cfg_mock env_token_down body_10 w0) =
       Inr (res_json 200 [(''success'', JBool True),
              (''message'', JStr ''STK Push sent to phone. (mock)'')])
   \<and> trace (snd (pay cfg_mock env_token_down body_10 w0)) = []
   \<and> pay_with probe_provider cfg_mock env_token_down body_10 w0 =
       pay cfg_mock env_token_down body_10 w0
   \<and> fst (probe_provider w0) = Inl (TypeError ''the token provider was called'')
   \<and> trace (snd (probe_provider w0)) = [token_request cfg_live]"
proof -
  from mock_short_circuit [OF mock_is_mock body_10_fields, of env_token_down w0]
  obtain w' where r: "pay cfg_mock env_token_down body_10 w0 =
       (Inr (res_json 200 [(''success'', JBool True),
              (''message'', JStr ''STK Push sent to phone. (mock)'')]), w')"
    and t: "trace w' = trace w0"
    and p: "\<forall>tp. pay_with tp cfg_mock env_token_down body_10 w0 =
       (Inr (res_json 200 [(''success'', JBool True),
              (''message'', JStr ''STK Push sent to phone. (mock)'')]), w')"
    by blast
  from p r have same: "pay_with probe_provider cfg_mock env_token_down body_10 w0 =
       pay cfg_mock env_token_down body_10 w0"
    by simp
  have probe: "fst (probe_provider w0) = Inl (TypeError ''the token provider was called'')"
    "trace (snd (probe_provider w0)) = [token_request cfg_live]"
    by (simp_all add: probe_provider_def w0_def)
  from r t same probe show ?thesis using mock_is_mock body_10_fields by (simp add: trace_w0)
qed

text \<open>
  Where C8 as worded fails: in mock mode, a request whose amount is present and is the
  number 0 is answered 400, as outside mock mode; the short-circuit is not reached.
\<close>

theorem mock_rejects_amount_zero:
  "MPESA_MOCK cfg_mock
   \<and> get_prop body_zero_amount ''phone'' = Inr (JStr ''0712345678'')
   \<and> get_prop body_zero_amount ''amount'' = Inr (JNum 0)
   \<and> pay cfg_mock env_token_down body_zero_amount w0 =
       (Inr (res_json 400 [(''success'', JBool False),
               (''message'', JStr ''Missing phone or amount in request body.'')]), w0)"
proof -
  have "get_prop body_zero_amount ''phone'' = Inr (JStr ''0712345678'')"
    and "get_prop body_zero_amount ''amount'' = Inr (JNum 0)"
    by (simp_all add: body_zero_amount_def)
  moreover have "pay cfg_mock env_token_down body_zero_amount w0 =
       (Inr (res_json 400 [(''success'', JBool False),
               (''message'', JStr ''Missing phone or amount in request body.'')]), w0)"
    by (simp add: pay_def destructure_body_def get_prop_opt_def body_zero_amount_def)
  ultimately show ?thesis using mock_is_mock by simp
qed

subsection \<open>C9: idempotence of the phone normalizer\<close>

text \<open>
  Claim C9. Normalizing the result of the normalizer again changes nothing exactly when
  the input, white space removed, does not begin with two plus signs; it changes nothing
  for every number; and a canonical number, 254 followed by 7 and 8 digits, is returned
  unchanged. The claim as worded (idempotent on every input) fails on a string that
  begins with two plus signs; this is the statement that holds.
\<close>

theorem normalizePhone_idempotence:
  "(normalizePhone_twice (JStr s) = normalizePhone (JStr s)) = (\<not> startsWith (strip_spaces s) ''++'')
   \<and> normalizePhone_twice (JNum n) = normalizePhone (JNum n)
   \<and> (seven_and_8_digits t \<longrightarrow> normalizePhone (JStr (''254'' @ t)) = Inr (JStr (''254'' @ t)))"
proof (intro conjI impI)
  show "(normalizePhone_twice (JStr s) = normalizePhone (JStr s)) = (\<not> startsWith (strip_spaces s) ''++'')"
    by (simp add: normalizePhone_twice_def normalizePhone_str spec_idem_iff)
  show "normalizePhone_twice (JNum n) = normalizePhone (JNum n)"
  proof (cases "n = 0")
    case True
    then show ?thesis by (simp add: normalizePhone_twice_def normalizePhone_def)
  next
    case False
    then have "normalizePhone (JNum n) = Inr (JStr (normalizePhone_spec (show_int n)))"
      by (simp add: normalizePhone_text)
    then show ?thesis
      using spec_idem_iff [of "show_int n"] show_int_no_plus [of n]
      by (simp add: normalizePhone_twice_def normalizePhone_str)
  qed
  assume t: "seven_and_8_digits t"
  have "\<forall>c \<in> set t. \<not> is_space c"
  proof
    fix c assume c: "c \<in> set t"
    from t have "take 1 t = ''7''" and "list_all is_digit (drop 1 t)" by (simp_all add: seven_and_8_digits_def)
    with c have "c = CHR ''7'' \<or> is_digit c"
      by (cases t) (auto simp: list_all_iff)
    then show "\<not> is_space c" by (auto simp: is_space_def is_digit_def)
  qed
  then have "\<forall>c \<in> set (''254'' @ t). \<not> is_space c" by (simp add: not_space_254)
  then have "normalizePhone_spec (''254'' @ t) = ''254'' @ t"
    by (rule spec_fix) simp_all
  then show "normalizePhone (JStr (''254'' @ t)) = Inr (JStr (''254'' @ t))"
    by (simp add: normalizePhone_str)
qed

text \<open>
  Instances of C9: the canonical 254712345678 is unchanged, and a spaced local number
  normalizes to a fixed point.
\<close>

theorem normalizePhone_idempotence_witness:
  "seven_and_8_digits ''712345678''
   \<and> normalizePhone (JStr ''254712345678'') = Inr (JStr ''254712345678'')
   \<and> normalizePhone_twice (JStr '' 0712 345 678'') = normalizePhone (JStr '' 0712 345 678'')"
proof -
  have h: "seven_and_8_digits ''712345678''" by (simp add: seven_and_8_digits_def is_digit_def)
  have n: "\<not> startsWith (strip_spaces '' 0712 345 678'') ''++''"
    by (simp add: startsWith_def strip_spaces_def is_space_def)
  from normalizePhone_idempotence [of "'' 0712 345 678''" 0 "''712345678''"] h n
  show ?thesis by simp
qed

text \<open>
  Where C9 as worded fails: \<^verbatim>\<open>++1\<close> normalizes to \<^verbatim>\<open>+1\<close>, which normalizes to \<^verbatim>\<open>1\<close>.
\<close>

theorem normalizePhone_double_plus:
  "normalizePhone (JStr ''++1'') = Inr (JStr ''+1'')
   \<and> normalizePhone_twice (JStr ''++1'') = Inr (JStr ''1'')"
  by (simp add: normalizePhone_twice_def normalizePhone_str normalizePhone_spec_def is_space_def
      seven_and_8_digits_def)

subsection \<open>C10: the resubmission sends the same payload\<close>

text \<open>
  Claim C10. In a run with a retry, that is with four outbound calls, the first and third
  are the token request and the second and fourth are submissions to the same URL with
  the same payload: the one built before the first attempt from the request, the
  normalized phone and the clock as it stood after the first token request. Their
  headers differ in the bearer token only.
\<close>

theorem resubmission_same_payload:
  assumes run: "pay cfg e body w = (res, w')"
    and calls: "trace w' = trace w @ [r1, r2, r3, r4]"
  shows "\<exists>phone amount name partyA nm t1 t2.
           destructure_body body = Inr (phone, amount, name)
         \<and> normalizePhone phone = Inr partyA
         \<and> String_js (js_or name (JStr ''customer'')) = Inr nm
         \<and> r1 = token_request cfg \<and> r3 = token_request cfg
         \<and> String_js (granted_token (respond e (trace w) r1)) = Inr t1
         \<and> String_js (granted_token (respond e (trace w @ [r1, r2]) r3)) = Inr t2
         \<and> r2 = AxiosPost (stk_url cfg)
                  (payload cfg (timestamp_of (now_iso e (trace w @ [r1]))) amount partyA nm)
                  [(''Authorization'', ''Bearer '' @ t1), (''Content-Type'', ''application/json''),
                   (''Accept'', ''application/json'')]
         \<and> r4 = AxiosPost (stk_url cfg)
                  (payload cfg (timestamp_of (now_iso e (trace w @ [r1]))) amount partyA nm)
                  [(''Authorization'', ''Bearer '' @ t2), (''Content-Type'', ''application/json''),
                   (''Accept'', ''application/json'')]"
  using run
proof (cases rule: pay_run)
  case (live phone amount name partyA nm fl w2 w3)
  from live(4,5,10) show ?thesis
    by (cases rule: submit_run)
       (use live calls in \<open>auto simp: stk_headers_def\<close>)
qed (use calls in auto)

text \<open>
  An instance of C10: the clock has moved by the time of the retry, and the resubmission
  still carries the timestamp and password of the first attempt.
\<close>

theorem resubmission_same_payload_witness:
  "trace (snd (pay cfg_live env_expired_once body_10 w0)) = trace w0 @ [token_request cfg_live, post_10 ''token-1-stale'', token_request cfg_live, post_10 ''token-2-fresh'']
   \<and> timestamp_of (now_iso env_expired_once (trace w0 @ [token_request cfg_live])) = ''20240102030405''
   \<and> timestamp_of (now_iso env_expired_once (trace w0 @ [token_request cfg_live, post_10 ''token-1-stale'', token_request cfg_live])) = ''20240102030409''
   \<and> get_prop payload_10 ''Timestamp'' = Inr (JStr ''20240102030405'')
   \<and> get_prop payload_10 ''Password'' = Inr (JStr ''MTc0Mzc5cGFzc2tleTIwMjQwMTAyMDMwNDA1'')"
proof -
  have calls: "trace (snd (pay cfg_live env_expired_once body_10 w0)) = trace w0 @ [token_request cfg_live, post_10 ''token-1-stale'', token_request cfg_live, post_10 ''token-2-fresh'']"
    by (simp add: run_expired_once trace_w0)
  from resubmission_same_payload [OF surjective_pairing calls]
  have "\<exists>amount partyA nm.
          (post_10 ''token-2-fresh'') = AxiosPost (stk_url cfg_live)
                  (payload cfg_live (timestamp_of (now_iso env_expired_once (trace w0 @ [token_request cfg_live]))) amount partyA nm)
                  [(''Authorization'', ''Bearer '' @ ''token-2-fresh''), (''Content-Type'', ''application/json''),
                   (''Accept'', ''application/json'')]"
    by (auto simp: stk_headers_def)
  moreover have "timestamp_of (now_iso env_expired_once (trace w0 @ [token_request cfg_live])) = ''20240102030405''"
    and "timestamp_of (now_iso env_expired_once (trace w0 @ [token_request cfg_live, post_10 ''token-1-stale'', token_request cfg_live])) = ''20240102030409''"
    by (simp_all add: timestamp_of_def env_expired_once_def clock_two_def trace_w0)
  moreover have "get_prop payload_10 ''Timestamp'' = Inr (JStr ''20240102030405'')"
    and "get_prop payload_10 ''Password'' = Inr (JStr ''MTc0Mzc5cGFzc2tleTIwMjQwMTAyMDMwNDA1'')"
    by (simp_all add: payload_def env_text_def cfg_live_def utf8_def b64_char_def)
  ultimately show ?thesis using calls by simp
qed

end
